theory Spec2Isabelle
  imports Main "HOL-Library.Sublist"
begin

section \<open>The DataJud collection pipeline (datajud\_locar\_pipeline\_v2.py)\<close>

text \<open>
  The script pages through the search API of each tribunal, filters the hits by their
  distribution date, classifies the movements of every retained hit against three keyword
  lists and merges the per-tribunal results, dropping duplicates on (cnj, tribunal).

  Conventions of the embedding:
  \<^item> a Python \<open>str\<close> is the list of its Unicode code points (\<open>pystr\<close>);
  \<^item> a JSON object read with \<open>dict.get(key, default)\<close> is a record whose fields are
    options, \<open>None\<close> standing for an absent key; values have the types of the upstream
    API contract. The body of the loop over the hits is given a second time on untyped
    JSON values, where a value of another type (a \<open>null\<close>, say) makes the operations
    of Python raise; the typed functions are its restriction to the documents of the
    contract;
  \<^item> a \<open>datetime.date\<close> is its proleptic Gregorian ordinal (\<open>date.toordinal()\<close>), an
    integer between 1 and 3652059;
  \<^item> what the interpreter, the clock and the network provide (\<open>str.lower\<close>,
    \<open>date.fromisoformat\<close>, \<open>date.today\<close>, \<open>session.post\<close>, ...) is gathered in a record
    \<open>runtime\<close> that every function takes as its first argument, so each result holds for
    whatever these do;
  \<^item> printing and network calls are recorded, in order, in a trace of events that is passed
    through the functions and returned extended.
\<close>

subsection \<open>Strings\<close>

type_synonym pystr = "nat list"

definition py :: "string \<Rightarrow> pystr" where
  "py s = map of_char s"

text \<open>\<open>keyword in desc\<close> on two strings: \<open>keyword\<close> occurs in \<open>desc\<close> as a contiguous run.\<close>

fun py_in :: "pystr \<Rightarrow> pystr \<Rightarrow> bool" where
  "py_in keyword [] = (keyword = [])"
| "py_in keyword (c # cs) = (prefix keyword (c # cs) \<or> py_in keyword cs)"

text \<open>\<open>sep.join(parts)\<close>\<close>

fun join :: "pystr \<Rightarrow> pystr list \<Rightarrow> pystr" where
  "join sep [] = []"
| "join sep [x] = x"
| "join sep (x # y # ys) = x @ sep @ join sep (y # ys)"

subsection \<open>Keyword lists\<close>

text \<open>The accented letters are written by code point: 225 a-acute, 227 a-tilde,
  231 c-cedilla, 243 o-acute, 245 o-tilde.\<close>

definition KEYWORDS_PRAZO :: "pystr list" where
  "KEYWORDS_PRAZO =
    [ py ''prazo'',
      py ''intima'' @ [231, 227] @ py ''o'',
      py ''manifesta'' @ [231, 227] @ py ''o'',
      py ''apresentar defesa'',
      py ''apresentar'',
      py ''contesta'' @ [231, 227] @ py ''o'',
      py ''contrarra'' @ [231, 245] @ py ''es'',
      py ''embargos'',
      py ''notifica'' @ [231, 227] @ py ''o'',
      py ''resposta'',
      py ''recurso'',
      py ''juntada de peti'' @ [231, 227] @ py ''o'' ]"

definition KEYWORDS_DECISAO :: "pystr list" where
  "KEYWORDS_DECISAO =
    [ py ''senten'' @ [231] @ py ''a'',
      py ''ac'' @ [243] @ py ''rd'' @ [227] @ py ''o'',
      py ''decis'' @ [227] @ py ''o'',
      py ''despacho'',
      py ''homologa'' @ [231, 227] @ py ''o'',
      py ''julgado'',
      py ''julgamento'',
      py ''proferida'',
      py ''deferida'',
      py ''indeferida'' ]"

definition KEYWORDS_EXECUCAO :: "pystr list" where
  "KEYWORDS_EXECUCAO =
    [ py ''execu'' @ [231, 227] @ py ''o'',
      py ''cumprimento'',
      py ''penhora'',
      py ''bloqueio'',
      py ''exequente'',
      py ''exequido'',
      py ''expedi'' @ [231, 227] @ py ''o de alvar'' @ [225],
      py ''leil'' @ [227] @ py ''o'',
      py ''arremata'' @ [231, 227] @ py ''o'' ]"

definition BASE_URL :: pystr where
  "BASE_URL = py ''https://api-publica.datajud.cnj.jus.br/api_publica_''"

definition page_size :: nat where
  "page_size = 100"

subsection \<open>The upstream documents\<close>

record movimento =
  descricao :: "pystr option"
  dataHora :: "pystr option"

record parte =
  tipoParte :: "pystr option"
  parte_nome :: "pystr option"

record orgao_julgador =
  nomeOrgao :: "pystr option"

record source =
  numeroProcesso :: "pystr option"
  src_grau :: "pystr option"
  classeProcessual :: "pystr option"
  assuntosProcessuais :: "pystr list option"
  orgaoJulgador :: "orgao_julgador option"
  situacaoProcessual :: "pystr option"
  src_partes :: "parte list option"
  dataDistribuicao :: "pystr option"
  movimentos :: "movimento list option"

record hit =
  hit_source :: "source option"

record hits_envelope =
  inner_hits :: "hit list option"

record response_data =
  outer_hits :: "hits_envelope option"

text \<open>What the \<open>try\<close> block around \<open>session.post\<close>, \<open>raise_for_status\<close> and \<open>resp.json\<close>
  leaves: an exception of any kind, or the decoded body.\<close>

datatype response = Falha | Resposta response_data

record request =
  endpoint :: pystr
  body_size :: nat
  body_from :: nat
  body_nome :: pystr
  body_documento :: pystr

subsection \<open>The extracted rows\<close>

record registro =
  cnj :: "pystr option"
  tribunal :: pystr
  grau :: "pystr option"
  classe :: "pystr option"
  assunto :: pystr
  orgao :: "pystr option"
  status :: "pystr option"
  partes :: pystr
  dt_distribuicao :: "pystr option"
  qtd_movimentos :: nat
  prazos_relevantes :: pystr
  resumo_decisao :: pystr
  fase_execucao :: pystr

subsection \<open>Runtime, events, outcomes\<close>

type_synonym date = int

datatype event =
    CreateSession
  | Post request
  | WarnFalha pystr nat
  | Consultando pystr
  | Encontrados nat
  | Total nat
  | ErroData pystr

record runtime =
  str_lower :: "pystr \<Rightarrow> pystr"
  str_upper :: "pystr \<Rightarrow> pystr"
  str_strip :: "pystr \<Rightarrow> pystr"
  date_fromisoformat :: "pystr \<Rightarrow> date option"
  date_today :: date
  session_post :: "event list \<Rightarrow> request \<Rightarrow> response"

subsection \<open>Classification of the movements\<close>

text \<open>\<open>m.get("descricao", "")\<close> and \<open>m.get("dataHora", "")\<close>\<close>

definition get_descricao :: "movimento \<Rightarrow> pystr" where
  "get_descricao m = (case descricao m of None \<Rightarrow> [] | Some d \<Rightarrow> d)"

definition get_dataHora :: "movimento \<Rightarrow> pystr" where
  "get_dataHora m = (case dataHora m of None \<Rightarrow> [] | Some t \<Rightarrow> t)"

text \<open>\<open>any(keyword in desc for keyword in KEYWORDS)\<close>\<close>

definition any_keyword_in :: "pystr list \<Rightarrow> pystr \<Rightarrow> bool" where
  "any_keyword_in keywords desc = list_ex (\<lambda>keyword. py_in keyword desc) keywords"

text \<open>The first loop: the deadlines, appended in the order of the movements.\<close>

fun prazos_loop :: "runtime \<Rightarrow> movimento list \<Rightarrow> pystr list \<Rightarrow> pystr list" where
  "prazos_loop rt [] prazos = prazos"
| "prazos_loop rt (m # ms) prazos =
     (let desc = str_lower rt (get_descricao m) in
      if any_keyword_in KEYWORDS_PRAZO desc
      then (let timestamp = get_dataHora m in
            prazos_loop rt ms (prazos @ [timestamp @ py '': '' @ get_descricao m]))
      else prazos_loop rt ms prazos)"

text \<open>The second loop runs over \<open>reversed(movimentos)\<close> and leaves at the first match.\<close>

fun resumo_loop :: "runtime \<Rightarrow> movimento list \<Rightarrow> pystr" where
  "resumo_loop rt [] = []"
| "resumo_loop rt (m # ms) =
     (let desc = str_lower rt (get_descricao m) in
      if any_keyword_in KEYWORDS_DECISAO desc then get_descricao m
      else resumo_loop rt ms)"

definition resumo_de :: "runtime \<Rightarrow> movimento list \<Rightarrow> pystr" where
  "resumo_de rt movs = resumo_loop rt (rev movs)"

text \<open>The nested generator \<open>any(keyword in ... for m in movimentos for keyword in
  KEYWORDS_EXECUCAO)\<close>: the movements are the outer loop, the keywords the inner one.\<close>

definition fase_de :: "runtime \<Rightarrow> movimento list \<Rightarrow> bool" where
  "fase_de rt movs =
     list_ex (\<lambda>(m, keyword). py_in keyword (str_lower rt (get_descricao m)))
       (concat (map (\<lambda>m. map (\<lambda>keyword. (m, keyword)) KEYWORDS_EXECUCAO) movs))"

subsection \<open>One hit\<close>

definition parse_date :: "runtime \<Rightarrow> pystr \<Rightarrow> date option" where
  "parse_date rt date_str = date_fromisoformat rt (take 10 date_str)"

text \<open>\<open>p.get("_source", {})\<close>: without the key, the empty object, where every key is absent.\<close>

definition empty_source :: source where
  "empty_source =
     \<lparr> numeroProcesso = None, src_grau = None, classeProcessual = None,
       assuntosProcessuais = None, orgaoJulgador = None, situacaoProcessual = None,
       src_partes = None, dataDistribuicao = None, movimentos = None \<rparr>"

definition get_source :: "hit \<Rightarrow> source" where
  "get_source p = (case hit_source p of None \<Rightarrow> empty_source | Some s \<Rightarrow> s)"

definition get_dataDistribuicao :: "source \<Rightarrow> pystr" where
  "get_dataDistribuicao src = (case dataDistribuicao src of None \<Rightarrow> [] | Some s \<Rightarrow> s)"

text \<open>\<open>src.get("movimentos", [])\<close> on a document of the contract: the default stands in for
  an absent key only. A key present with \<open>null\<close> is not such a document; what the code
  does with it is the matter of \<open>processar_hit_json\<close> below.\<close>

definition get_movimentos :: "source \<Rightarrow> movimento list" where
  "get_movimentos src = (case movimentos src of None \<Rightarrow> [] | Some ms \<Rightarrow> ms)"

definition fmt_parte :: "parte \<Rightarrow> pystr" where
  "fmt_parte p =
     (case tipoParte p of None \<Rightarrow> [] | Some t \<Rightarrow> t) @ py '': '' @
     (case parte_nome p of None \<Rightarrow> [] | Some n \<Rightarrow> n)"

definition Sim :: pystr where
  "Sim = py ''Sim''"

definition Nao :: pystr where
  "Nao = py ''N'' @ [227] @ py ''o''"

text \<open>The dictionary appended to \<open>resultados\<close> for a retained hit.\<close>

definition montar_registro :: "runtime \<Rightarrow> pystr \<Rightarrow> source \<Rightarrow> registro" where
  "montar_registro rt trib src =
     (let movs = get_movimentos src;
          prazos = prazos_loop rt movs [];
          prazos_txt = join [10] prazos;
          resumo = resumo_de rt movs;
          fase = fase_de rt movs
      in \<lparr> cnj = numeroProcesso src,
           tribunal = str_upper rt trib,
           grau = src_grau src,
           classe = classeProcessual src,
           assunto = join (py '', '')
             (case assuntosProcessuais src of None \<Rightarrow> [] | Some l \<Rightarrow> l),
           orgao = (case orgaoJulgador src of None \<Rightarrow> None | Some oj \<Rightarrow> nomeOrgao oj),
           status = situacaoProcessual src,
           partes = join (py ''; '')
             (map fmt_parte (case src_partes src of None \<Rightarrow> [] | Some l \<Rightarrow> l)),
           dt_distribuicao = dataDistribuicao src,
           qtd_movimentos = length movs,
           prazos_relevantes = prazos_txt,
           resumo_decisao = resumo,
           fase_execucao = (if fase then Sim else Nao) \<rparr>)"

text \<open>The body of \<open>for p in hits\<close>: \<open>None\<close> is the \<open>continue\<close> of the date filter.\<close>

definition processar_hit :: "runtime \<Rightarrow> pystr \<Rightarrow> date option \<Rightarrow> hit \<Rightarrow> registro option" where
  "processar_hit rt trib desde p =
     (let src = get_source p;
          dt_dist = parse_date rt (get_dataDistribuicao src)
      in case desde of
           None \<Rightarrow> Some (montar_registro rt trib src)
         | Some d \<Rightarrow>
             (case dt_dist of
                None \<Rightarrow> Some (montar_registro rt trib src)
              | Some dd \<Rightarrow>
                  if dd < d then None else Some (montar_registro rt trib src)))"

fun hits_loop ::
  "runtime \<Rightarrow> pystr \<Rightarrow> date option \<Rightarrow> hit list \<Rightarrow> registro list \<Rightarrow> registro list" where
  "hits_loop rt trib desde [] resultados = resultados"
| "hits_loop rt trib desde (p # ps) resultados =
     (case processar_hit rt trib desde p of
        None \<Rightarrow> hits_loop rt trib desde ps resultados
      | Some r \<Rightarrow> hits_loop rt trib desde ps (resultados @ [r]))"

subsection \<open>One tribunal: \<open>buscar_processos\<close>\<close>

text \<open>\<open>data.get("hits", {}).get("hits", [])\<close>\<close>

definition get_hits :: "response_data \<Rightarrow> hit list" where
  "get_hits data =
     (case outer_hits data of
        None \<Rightarrow> []
      | Some env \<Rightarrow> (case inner_hits env of None \<Rightarrow> [] | Some hs \<Rightarrow> hs))"

definition search_request :: "pystr \<Rightarrow> pystr \<Rightarrow> pystr \<Rightarrow> nat \<Rightarrow> request" where
  "search_request nome cnpj trib pagina =
     \<lparr> endpoint = BASE_URL @ trib @ py ''/_search'',
       body_size = page_size,
       body_from = pagina * page_size,
       body_nome = nome,
       body_documento = cnpj \<rparr>"

text \<open>\<open>for pagina in range(max_paginas)\<close>, over the pages still to come. The three
  \<open>break\<close>s return what has been collected; the transport sees the trace so far.\<close>

fun paginas_loop ::
  "runtime \<Rightarrow> pystr \<Rightarrow> pystr \<Rightarrow> pystr \<Rightarrow> date option \<Rightarrow> nat list \<Rightarrow>
   registro list \<Rightarrow> event list \<Rightarrow> registro list \<times> event list" where
  "paginas_loop rt nome cnpj trib desde [] resultados tr = (resultados, tr)"
| "paginas_loop rt nome cnpj trib desde (pagina # rest) resultados tr =
     (let req = search_request nome cnpj trib pagina in
      case session_post rt tr req of
        Falha \<Rightarrow> (resultados, tr @ [Post req, WarnFalha (str_upper rt trib) (pagina + 1)])
      | Resposta data \<Rightarrow>
          (let hits = get_hits data in
           if hits = [] then (resultados, tr @ [Post req])
           else
             (let resultados' = hits_loop rt trib desde hits resultados in
              if length hits < page_size then (resultados', tr @ [Post req])
              else paginas_loop rt nome cnpj trib desde rest resultados' (tr @ [Post req]))))"

definition buscar_processos ::
  "runtime \<Rightarrow> pystr \<Rightarrow> pystr \<Rightarrow> pystr \<Rightarrow> int \<Rightarrow> date option \<Rightarrow> event list \<Rightarrow>
   registro list \<times> event list" where
  "buscar_processos rt nome cnpj trib max_paginas desde tr =
     paginas_loop rt nome cnpj trib desde [0..<nat max_paginas] [] tr"

subsection \<open>All tribunals: \<open>main\<close>\<close>

record args =
  arg_nome :: "pystr option"
  arg_cnpj :: "pystr option"
  arg_tribunais :: "pystr list"
  arg_max_paginas :: int
  arg_desde :: "pystr option"
  arg_since_days :: "int option"
  arg_selftest :: bool

datatype py_exception = OverflowError | TypeError | AttributeError

text \<open>How a run ends: it reaches the export step with its rows, or leaves through
  \<open>sys.exit\<close> (also \<open>parser.error\<close>, which exits with status 2), or an exception escapes.
  The export step itself (Excel, CSV, SQLite, PDF) is outside the embedding.\<close>

datatype outcome = Dados "registro list" | SystemExit nat | Raised py_exception

definition MAXORDINAL :: int where
  "MAXORDINAL = 3652059"

text \<open>\<open>date.today() - timedelta(days=n)\<close>: \<open>timedelta\<close> accepts at most 999999999 days in
  either direction, and the difference must be a date between 0001-01-01 and 9999-12-31;
  both failures are an \<open>OverflowError\<close>.\<close>

definition date_minus_days :: "date \<Rightarrow> int \<Rightarrow> py_exception + date" where
  "date_minus_days today n =
     (if \<bar>n\<bar> > 999999999 then Inl OverflowError
      else if 1 \<le> today - n \<and> today - n \<le> MAXORDINAL then Inr (today - n)
      else Inl OverflowError)"

text \<open>\<open>DataFrame.duplicated(subset=["cnj", "tribunal"])\<close> with the default
  \<open>keep="first"\<close>: a row is marked when its key has been seen in an earlier row;
  \<open>drop_duplicates\<close> keeps the unmarked rows.\<close>

definition chave :: "registro \<Rightarrow> pystr option \<times> pystr" where
  "chave r = (cnj r, tribunal r)"

fun duplicated :: "(pystr option \<times> pystr) list \<Rightarrow> registro list \<Rightarrow> bool list" where
  "duplicated seen [] = []"
| "duplicated seen (r # rs) = (chave r \<in> set seen) # duplicated (chave r # seen) rs"

definition drop_duplicates :: "registro list \<Rightarrow> registro list" where
  "drop_duplicates rs = map fst (filter (\<lambda>(r, dup). \<not> dup) (zip rs (duplicated [] rs)))"

text \<open>\<open>for tribunal in args.tribunais\<close>\<close>

fun tribunais_loop ::
  "runtime \<Rightarrow> pystr \<Rightarrow> pystr \<Rightarrow> int \<Rightarrow> date option \<Rightarrow> pystr list \<Rightarrow>
   registro list \<Rightarrow> event list \<Rightarrow> registro list \<times> event list" where
  "tribunais_loop rt nome cnpj max_paginas desde [] dados tr = (dados, tr)"
| "tribunais_loop rt nome cnpj max_paginas desde (t # ts) dados tr =
     (let trib = str_strip rt (str_lower rt t);
          tr1 = tr @ [Consultando (str_upper rt trib)];
          (encontrados, tr2) = buscar_processos rt nome cnpj trib max_paginas desde tr1;
          tr3 = tr2 @ [Encontrados (length encontrados)]
      in tribunais_loop rt nome cnpj max_paginas desde ts (dados @ encontrados) tr3)"

definition gerar_dados_teste :: "registro list" where
  "gerar_dados_teste =
     [ \<lparr> cnj = Some (py ''0000000-00.2020.8.99.9999''),
         tribunal = py ''TJXX'',
         grau = Some (py ''1''),
         classe = Some (py ''Procedimento Comum''),
         assunto = py ''Contrato'',
         orgao = Some (py ''Vara '' @ [218] @ py ''nica''),
         status = Some (py ''Em andamento''),
         partes = py ''AUTOR: Empresa A; R'' @ [201] @ py ''U: Empresa B'',
         dt_distribuicao = Some (py ''2020-01-01''),
         qtd_movimentos = 10,
         prazos_relevantes = py ''2020-02-01T00:00:00Z: Intima'' @ [231, 227] @
           py ''o para manifesta'' @ [231, 227] @ py ''o'',
         resumo_decisao = py ''Decis'' @ [227] @ py ''o interlocut'' @ [243] @
           py ''ria proferida.'',
         fase_execucao = Nao \<rparr>,
       \<lparr> cnj = Some (py ''1111111-11.2021.8.99.9999''),
         tribunal = py ''TJYY'',
         grau = Some (py ''2''),
         classe = Some (py ''Execu'' @ [231, 227] @ py ''o''),
         assunto = py ''Cobran'' @ [231] @ py ''a'',
         orgao = Some (py ''Turma Recursal''),
         status = Some (py ''Sentenciado''),
         partes = py ''EXEQUENTE: Fulano; EXECUTADO: Sicrano'',
         dt_distribuicao = Some (py ''2021-05-10''),
         qtd_movimentos = 8,
         prazos_relevantes = [],
         resumo_decisao = py ''Senten'' @ [231] @ py ''a de m'' @ [233] @ py ''rito.'',
         fase_execucao = Sim \<rparr> ]"

text \<open>The date filter of \<open>main\<close>: \<open>if args.desde: ... elif args.since_days: ...\<close>. An
  empty string and the number 0 are false in Python, so both leave \<open>desde\<close> at \<open>None\<close>.
  The result is the outcome that ends the run here, or the filter.\<close>

definition determinar_desde :: "runtime \<Rightarrow> args \<Rightarrow> (outcome \<times> event list) + date option" where
  "determinar_desde rt a =
     (case arg_desde a of
        Some (c # cs) \<Rightarrow>
          (case date_fromisoformat rt (c # cs) of
             None \<Rightarrow> Inl (SystemExit 1, [ErroData (c # cs)])
           | Some d \<Rightarrow> Inr (Some d))
      | _ \<Rightarrow>
          (case arg_since_days a of
             None \<Rightarrow> Inr None
           | Some n \<Rightarrow>
               if n = 0 then Inr None
               else (case date_minus_days (date_today rt) n of
                       Inl e \<Rightarrow> Inl (Raised e, [])
                     | Inr d \<Rightarrow> Inr (Some d))))"

text \<open>\<open>not args.nome\<close>: the option was not given, or is the empty string.\<close>

definition truthy :: "pystr option \<Rightarrow> pystr option" where
  "truthy s = (case s of Some (c # cs) \<Rightarrow> Some (c # cs) | _ \<Rightarrow> None)"

text \<open>The run once the date filter is known: the self-test rows, or the check of the
  required options, the session, the tribunals and the deduplication.\<close>

definition executar :: "runtime \<Rightarrow> args \<Rightarrow> date option \<Rightarrow> outcome \<times> event list" where
  "executar rt a desde =
     (if arg_selftest a then (Dados gerar_dados_teste, [])
      else
        (case (truthy (arg_nome a), truthy (arg_cnpj a), arg_tribunais a) of
           (Some nome, Some cnpj, t # ts) \<Rightarrow>
             (let (dados, tr) =
                    tribunais_loop rt nome cnpj (arg_max_paginas a) desde (t # ts) []
                      [CreateSession];
                  dados' = (if dados \<noteq> [] then drop_duplicates dados else dados)
              in (Dados dados', tr @ [Total (length dados')]))
         | _ \<Rightarrow> (SystemExit 2, [])))"

definition main :: "runtime \<Rightarrow> args \<Rightarrow> outcome \<times> event list" where
  "main rt a =
     (case determinar_desde rt a of
        Inl ended \<Rightarrow> ended
      | Inr desde \<Rightarrow> executar rt a desde)"

subsection \<open>A reference runtime\<close>

text \<open>For evaluation on concrete inputs, after CPython 3.11: \<open>str.lower\<close> and
  \<open>str.upper\<close> as they act on the code points below 256 (code points from 256 on are left
  as they are, which is not what CPython does for the letters among them), \<open>str.strip\<close>
  with the white space of Unicode, \<open>date.fromisoformat\<close> as the C implementation parses
  its argument, a fixed day as today (2026-11-03), and a transport given as an argument.

  The parser follows \<open>parse_isoformat_date\<close> of \<open>_datetimemodule.c\<close>: the length it
  compares is that of the UTF-8 encoding; besides \<open>YYYY-MM-DD\<close> it accepts \<open>YYYYMMDD\<close>
  and the week dates \<open>YYYY-Www\<close>, \<open>YYYYWww\<close>, \<open>YYYY-Www-D\<close> and \<open>YYYYWwwD\<close>, and it
  does not look at what follows the last field it reads. (ISO year 0 is refused; the C
  arithmetic reaches that through a date that \<open>new_date\<close> rejects.)\<close>

definition lower_cp :: "nat \<Rightarrow> nat" where
  "lower_cp c = (if (65 \<le> c \<and> c \<le> 90) \<or> (192 \<le> c \<and> c \<le> 222 \<and> c \<noteq> 215) then c + 32 else c)"

definition upper_cp :: "nat \<Rightarrow> pystr" where
  "upper_cp c =
     (if (97 \<le> c \<and> c \<le> 122) \<or> (224 \<le> c \<and> c \<le> 254 \<and> c \<noteq> 247) then [c - 32]
      else if c = 223 then [83, 83]
      else if c = 181 then [924]
      else if c = 255 then [376]
      else [c])"

definition is_space :: "nat \<Rightarrow> bool" where
  "is_space c =
     ((9 \<le> c \<and> c \<le> 13) \<or> (28 \<le> c \<and> c \<le> 32) \<or> c = 133 \<or> c = 160 \<or> c = 5760
      \<or> (8192 \<le> c \<and> c \<le> 8202) \<or> c = 8232 \<or> c = 8233 \<or> c = 8239 \<or> c = 8287
      \<or> c = 12288)"

definition strip0 :: "pystr \<Rightarrow> pystr" where
  "strip0 s = rev (dropWhile is_space (rev (dropWhile is_space s)))"

definition digit :: "nat \<Rightarrow> nat option" where
  "digit c = (if 48 \<le> c \<and> c \<le> 57 then Some (c - 48) else None)"

fun digits :: "pystr \<Rightarrow> nat \<Rightarrow> nat option" where
  "digits [] acc = Some acc"
| "digits (c # cs) acc = (case digit c of None \<Rightarrow> None | Some d \<Rightarrow> digits cs (10 * acc + d))"

text \<open>\<open>parse_digits(p, &var, n)\<close>: the next \<open>n\<close> characters, all digits, as a number, and
  what follows them.\<close>

definition parse_digits :: "nat \<Rightarrow> pystr \<Rightarrow> (nat \<times> pystr) option" where
  "parse_digits n s =
     (if length s < n then None
      else (case digits (take n s) 0 of None \<Rightarrow> None | Some v \<Rightarrow> Some (v, drop n s)))"

definition is_leap :: "nat \<Rightarrow> bool" where
  "is_leap y = (y mod 4 = 0 \<and> (y mod 100 \<noteq> 0 \<or> y mod 400 = 0))"

definition days_in_month :: "nat \<Rightarrow> nat \<Rightarrow> nat" where
  "days_in_month y m =
     (if m = 2 then (if is_leap y then 29 else 28)
      else if m = 4 \<or> m = 6 \<or> m = 9 \<or> m = 11 then 30 else 31)"

definition ymd2ord :: "nat \<Rightarrow> nat \<Rightarrow> nat \<Rightarrow> date" where
  "ymd2ord y m d =
     int ((y - 1) * 365 + (y - 1) div 4 - (y - 1) div 100 + (y - 1) div 400
          + sum_list (map (days_in_month y) [1..<m]) + d)"

definition new_date :: "nat \<Rightarrow> nat \<Rightarrow> nat \<Rightarrow> date option" where
  "new_date y m d =
     (if 1 \<le> y \<and> y \<le> 9999 \<and> 1 \<le> m \<and> m \<le> 12 \<and> 1 \<le> d \<and> d \<le> days_in_month y m
      then Some (ymd2ord y m d) else None)"

definition utf8_len :: "pystr \<Rightarrow> nat" where
  "utf8_len s =
     sum_list (map (\<lambda>c. if c < 128 then 1 else if c < 2048 then 2 else if c < 65536 then 3 else 4) s)"

definition weekday_jan1 :: "nat \<Rightarrow> nat" where
  "weekday_jan1 y = nat ((ymd2ord y 1 1 + 6) mod 7)"

definition iso_week1_monday :: "nat \<Rightarrow> int" where
  "iso_week1_monday y =
     (let first_day = ymd2ord y 1 1;
          first_weekday = (first_day + 6) mod 7;
          week1_monday = first_day - first_weekday
      in if first_weekday > 3 then week1_monday + 7 else week1_monday)"

definition iso_to_date :: "nat \<Rightarrow> nat \<Rightarrow> nat \<Rightarrow> date option" where
  "iso_to_date y w d =
     (if y = 0 then None
      else if (w = 0 \<or> 53 \<le> w)
              \<and> \<not> (w = 53 \<and> (weekday_jan1 y = 3 \<or> (weekday_jan1 y = 2 \<and> is_leap y)))
      then None
      else if d = 0 \<or> 8 \<le> d then None
      else (let ord = iso_week1_monday y + (int w - 1) * 7 + int d - 1
            in if 1 \<le> ord \<and> ord \<le> MAXORDINAL then Some ord else None))"

definition skip_dash :: "bool \<Rightarrow> pystr \<Rightarrow> pystr option" where
  "skip_dash uses_separator s =
     (if uses_separator
      then (case s of [] \<Rightarrow> None | c # cs \<Rightarrow> if c = 45 then Some cs else None)
      else Some s)"

definition parse_isoformat_date :: "nat \<Rightarrow> pystr \<Rightarrow> date option" where
  "parse_isoformat_date len s =
     (case parse_digits 4 s of
        None \<Rightarrow> None
      | Some (year, p1) \<Rightarrow>
          (let uses_separator = (case p1 of [] \<Rightarrow> False | c # cs \<Rightarrow> c = 45);
               p2 = (if uses_separator then tl p1 else p1)
           in case p2 of
                [] \<Rightarrow> None
              | c # p3 \<Rightarrow>
                  if c = 87 then
                    (case parse_digits 2 p3 of
                       None \<Rightarrow> None
                     | Some (iso_week, p4) \<Rightarrow>
                         if (if uses_separator then 8 else 7) < len then
                           (case skip_dash uses_separator p4 of
                              None \<Rightarrow> None
                            | Some p5 \<Rightarrow>
                                (case parse_digits 1 p5 of
                                   None \<Rightarrow> None
                                 | Some (iso_day, p6) \<Rightarrow> iso_to_date year iso_week iso_day))
                         else iso_to_date year iso_week 1)
                  else
                    (case parse_digits 2 p2 of
                       None \<Rightarrow> None
                     | Some (month, p4) \<Rightarrow>
                         (case skip_dash uses_separator p4 of
                            None \<Rightarrow> None
                          | Some p5 \<Rightarrow>
                              (case parse_digits 2 p5 of
                                 None \<Rightarrow> None
                               | Some (day, p6) \<Rightarrow> new_date year month day)))))"

definition fromisoformat0 :: "pystr \<Rightarrow> date option" where
  "fromisoformat0 s =
     (let len = utf8_len s
      in if len = 7 \<or> len = 8 \<or> len = 10 then parse_isoformat_date len s else None)"

text \<open>\<open>date.fromisoformat\<close> as CPython 3.7 to 3.10 parse it: \<open>YYYY-MM-DD\<close> only.\<close>

definition fromisoformat_310 :: "pystr \<Rightarrow> date option" where
  "fromisoformat_310 s =
     (if utf8_len s = 10 then
        (case parse_digits 4 s of
           None \<Rightarrow> None
         | Some (year, p1) \<Rightarrow>
             (case skip_dash True p1 of
                None \<Rightarrow> None
              | Some p2 \<Rightarrow>
                  (case parse_digits 2 p2 of
                     None \<Rightarrow> None
                   | Some (month, p3) \<Rightarrow>
                       (case skip_dash True p3 of
                          None \<Rightarrow> None
                        | Some p4 \<Rightarrow>
                            (case parse_digits 2 p4 of
                               None \<Rightarrow> None
                             | Some (day, p5) \<Rightarrow> new_date year month day)))))
      else None)"

definition rt0 :: "(event list \<Rightarrow> request \<Rightarrow> response) \<Rightarrow> runtime" where
  "rt0 post =
     \<lparr> str_lower = map lower_cp, str_upper = (\<lambda>s. concat (map upper_cp s)),
       str_strip = strip0, date_fromisoformat = fromisoformat0, date_today = 739923,
       session_post = post \<rparr>"

subsection \<open>One hit, on untyped JSON\<close>

text \<open>
  The body of \<open>for p in hits\<close> once more, now on what \<open>resp.json()\<close> can really
  return: any JSON value in any place, a key present with \<open>null\<close> included. Here the
  operations of Python fail as they do in the interpreter: \<open>x.get\<close> on anything but an
  object and \<open>x.lower\<close> on anything but a string raise \<open>AttributeError\<close>, iterating
  \<open>null\<close>, a number or a boolean raises \<open>TypeError\<close>, and so does joining something that
  is not a string. None of this is inside the \<open>try\<close> of \<open>buscar_processos\<close>, so such an
  exception leaves \<open>buscar_processos\<close> and \<open>main\<close>.

  An object is the list of its members in order (their keys are distinct); a float is
  given by its mantissa and binary exponent. \<open>str\<close> of a value that is not a string, as
  the f-strings need it, is a parameter \<open>py_str\<close>.
\<close>

datatype json =
    JNull
  | JBool bool
  | JInt int
  | JFloat int int
  | JStr pystr
  | JArr "json list"
  | JObj "(pystr \<times> json) list"

record registro_json =
  j_cnj :: json
  j_tribunal :: pystr
  j_grau :: json
  j_classe :: json
  j_assunto :: pystr
  j_orgao :: json
  j_status :: json
  j_partes :: pystr
  j_dt_distribuicao :: json
  j_qtd_movimentos :: nat
  j_prazos_relevantes :: pystr
  j_resumo_decisao :: pystr
  j_fase_execucao :: pystr

text \<open>Sequencing: the first exception ends the computation.\<close>

definition sbind :: "py_exception + 'a \<Rightarrow> ('a \<Rightarrow> py_exception + 'b) \<Rightarrow> py_exception + 'b" where
  "sbind x f = (case x of Inl e \<Rightarrow> Inl e | Inr v \<Rightarrow> f v)"

text \<open>\<open>x.get(key, default)\<close>\<close>

definition dict_get :: "json \<Rightarrow> pystr \<Rightarrow> json \<Rightarrow> py_exception + json" where
  "dict_get x key dflt =
     (case x of
        JObj members \<Rightarrow> Inr (case map_of members key of None \<Rightarrow> dflt | Some v \<Rightarrow> v)
      | _ \<Rightarrow> Inl AttributeError)"

text \<open>\<open>for item in x\<close>: the elements of a list, the characters of a string, the keys of an
  object; \<open>reversed(x)\<close> likewise (for an object from Python 3.8 on); \<open>len(x)\<close>.\<close>

definition py_iter :: "json \<Rightarrow> py_exception + json list" where
  "py_iter x =
     (case x of
        JArr items \<Rightarrow> Inr items
      | JStr s \<Rightarrow> Inr (map (\<lambda>c. JStr [c]) s)
      | JObj members \<Rightarrow> Inr (map (\<lambda>(k, v). JStr k) members)
      | _ \<Rightarrow> Inl TypeError)"

definition py_reversed :: "json \<Rightarrow> py_exception + json list" where
  "py_reversed x = (case py_iter x of Inl e \<Rightarrow> Inl e | Inr items \<Rightarrow> Inr (rev items))"

definition py_len :: "json \<Rightarrow> py_exception + nat" where
  "py_len x = (case py_iter x of Inl e \<Rightarrow> Inl e | Inr items \<Rightarrow> Inr (length items))"

text \<open>The truth value of \<open>x\<close> in \<open>x or []\<close>.\<close>

definition py_truthy :: "json \<Rightarrow> bool" where
  "py_truthy x =
     (case x of
        JNull \<Rightarrow> False
      | JBool b \<Rightarrow> b
      | JInt i \<Rightarrow> i \<noteq> 0
      | JFloat m e \<Rightarrow> m \<noteq> 0
      | JStr s \<Rightarrow> s \<noteq> []
      | JArr items \<Rightarrow> items \<noteq> []
      | JObj members \<Rightarrow> members \<noteq> [])"

text \<open>A value inside an f-string.\<close>

definition py_format :: "(json \<Rightarrow> pystr) \<Rightarrow> json \<Rightarrow> pystr" where
  "py_format py_str x = (case x of JStr s \<Rightarrow> s | _ \<Rightarrow> py_str x)"

text \<open>\<open>sep.join(x)\<close>: every item must be a string.\<close>

fun str_items :: "json list \<Rightarrow> py_exception + pystr list" where
  "str_items [] = Inr []"
| "str_items (x # xs) =
     (case x of
        JStr s \<Rightarrow> (case str_items xs of Inl e \<Rightarrow> Inl e | Inr ss \<Rightarrow> Inr (s # ss))
      | _ \<Rightarrow> Inl TypeError)"

definition py_join :: "pystr \<Rightarrow> json \<Rightarrow> py_exception + pystr" where
  "py_join sep x =
     sbind (py_iter x) (\<lambda>items. sbind (str_items items) (\<lambda>ss. Inr (join sep ss)))"

text \<open>\<open>parse_date\<close> on any value: slicing or parsing something that is not a string
  raises inside its \<open>try\<close>, which gives \<open>None\<close>.\<close>

definition parse_date_json :: "runtime \<Rightarrow> json \<Rightarrow> date option" where
  "parse_date_json rt x = (case x of JStr s \<Rightarrow> parse_date rt s | _ \<Rightarrow> None)"

text \<open>\<open>m.get("descricao", "")\<close> and its \<open>.lower()\<close>\<close>

definition descricao_lower :: "runtime \<Rightarrow> json \<Rightarrow> py_exception + pystr \<times> pystr" where
  "descricao_lower rt m =
     sbind (dict_get m (py ''descricao'') (JStr []))
       (\<lambda>v. case v of JStr s \<Rightarrow> Inr (s, str_lower rt s) | _ \<Rightarrow> Inl AttributeError)"

text \<open>One round of each of the three passes over the movements.\<close>

definition prazo_de :: "runtime \<Rightarrow> (json \<Rightarrow> pystr) \<Rightarrow> json \<Rightarrow> py_exception + pystr option" where
  "prazo_de rt py_str m =
     sbind (descricao_lower rt m) (\<lambda>(s, desc).
       if any_keyword_in KEYWORDS_PRAZO desc
       then sbind (dict_get m (py ''dataHora'') (JStr []))
              (\<lambda>timestamp. Inr (Some (py_format py_str timestamp @ py '': '' @ s)))
       else Inr None)"

definition decisao_de :: "runtime \<Rightarrow> json \<Rightarrow> py_exception + pystr option" where
  "decisao_de rt m =
     sbind (descricao_lower rt m) (\<lambda>(s, desc).
       if any_keyword_in KEYWORDS_DECISAO desc then Inr (Some s) else Inr None)"

definition execucao_de :: "runtime \<Rightarrow> json \<Rightarrow> py_exception + bool" where
  "execucao_de rt m =
     sbind (descricao_lower rt m) (\<lambda>(s, desc). Inr (any_keyword_in KEYWORDS_EXECUCAO desc))"

fun prazos_loop_json ::
  "runtime \<Rightarrow> (json \<Rightarrow> pystr) \<Rightarrow> json list \<Rightarrow> pystr list \<Rightarrow> py_exception + pystr list" where
  "prazos_loop_json rt py_str [] prazos = Inr prazos"
| "prazos_loop_json rt py_str (m # ms) prazos =
     (case prazo_de rt py_str m of
        Inl e \<Rightarrow> Inl e
      | Inr None \<Rightarrow> prazos_loop_json rt py_str ms prazos
      | Inr (Some entry) \<Rightarrow> prazos_loop_json rt py_str ms (prazos @ [entry]))"

fun resumo_loop_json :: "runtime \<Rightarrow> json list \<Rightarrow> py_exception + pystr" where
  "resumo_loop_json rt [] = Inr []"
| "resumo_loop_json rt (m # ms) =
     (case decisao_de rt m of
        Inl e \<Rightarrow> Inl e
      | Inr None \<Rightarrow> resumo_loop_json rt ms
      | Inr (Some s) \<Rightarrow> Inr s)"

fun fase_loop_json :: "runtime \<Rightarrow> json list \<Rightarrow> py_exception + bool" where
  "fase_loop_json rt [] = Inr False"
| "fase_loop_json rt (m # ms) =
     (case execucao_de rt m of
        Inl e \<Rightarrow> Inl e
      | Inr True \<Rightarrow> Inr True
      | Inr False \<Rightarrow> fase_loop_json rt ms)"

text \<open>The generator of the key \<open>"partes"\<close>.\<close>

definition fmt_parte_json :: "(json \<Rightarrow> pystr) \<Rightarrow> json \<Rightarrow> py_exception + pystr" where
  "fmt_parte_json py_str parte =
     sbind (dict_get parte (py ''tipoParte'') (JStr [])) (\<lambda>tipo.
     sbind (dict_get parte (py ''nome'') (JStr [])) (\<lambda>nome.
       Inr (py_format py_str tipo @ py '': '' @ py_format py_str nome)))"

fun partes_loop_json :: "(json \<Rightarrow> pystr) \<Rightarrow> json list \<Rightarrow> py_exception + pystr list" where
  "partes_loop_json py_str [] = Inr []"
| "partes_loop_json py_str (parte # rest) =
     (case fmt_parte_json py_str parte of
        Inl e \<Rightarrow> Inl e
      | Inr s \<Rightarrow> (case partes_loop_json py_str rest of Inl e \<Rightarrow> Inl e | Inr ss \<Rightarrow> Inr (s # ss)))"

text \<open>Lines 207 to 251 for one hit, in the order in which Python evaluates them.\<close>

definition processar_hit_json ::
  "runtime \<Rightarrow> (json \<Rightarrow> pystr) \<Rightarrow> pystr \<Rightarrow> date option \<Rightarrow> json \<Rightarrow>
   py_exception + registro_json option" where
  "processar_hit_json rt py_str trib desde p =
     sbind (dict_get p (py ''_source'') (JObj [])) (\<lambda>src.
     sbind (dict_get src (py ''dataDistribuicao'') (JStr [])) (\<lambda>dist.
       if (case (desde, parse_date_json rt dist) of (Some d, Some dd) \<Rightarrow> dd < d | _ \<Rightarrow> False)
       then Inr None
       else
     sbind (dict_get src (py ''movimentos'') (JArr [])) (\<lambda>movimentos.
     sbind (py_iter movimentos) (\<lambda>ms.
     sbind (prazos_loop_json rt py_str ms []) (\<lambda>prazos.
     sbind (py_reversed movimentos) (\<lambda>rs.
     sbind (resumo_loop_json rt rs) (\<lambda>resumo.
     sbind (fase_loop_json rt ms) (\<lambda>fase.
     sbind (dict_get src (py ''numeroProcesso'') JNull) (\<lambda>numero.
     sbind (dict_get src (py ''grau'') JNull) (\<lambda>g.
     sbind (dict_get src (py ''classeProcessual'') JNull) (\<lambda>cl.
     sbind (dict_get src (py ''assuntosProcessuais'') (JArr [])) (\<lambda>assuntos.
     sbind (py_join (py '', '') (if py_truthy assuntos then assuntos else JArr [])) (\<lambda>assunto_txt.
     sbind (dict_get src (py ''orgaoJulgador'') (JObj [])) (\<lambda>oj.
     sbind (dict_get oj (py ''nomeOrgao'') JNull) (\<lambda>nome_orgao.
     sbind (dict_get src (py ''situacaoProcessual'') JNull) (\<lambda>situacao.
     sbind (dict_get src (py ''partes'') (JArr [])) (\<lambda>ps.
     sbind (py_iter ps) (\<lambda>partes_items.
     sbind (partes_loop_json py_str partes_items) (\<lambda>partes_fmt.
     sbind (dict_get src (py ''dataDistribuicao'') JNull) (\<lambda>dt.
     sbind (py_len movimentos) (\<lambda>qtd.
       Inr (Some
         \<lparr> j_cnj = numero,
           j_tribunal = str_upper rt trib,
           j_grau = g,
           j_classe = cl,
           j_assunto = assunto_txt,
           j_orgao = nome_orgao,
           j_status = situacao,
           j_partes = join (py ''; '') partes_fmt,
           j_dt_distribuicao = dt,
           j_qtd_movimentos = qtd,
           j_prazos_relevantes = join [10] prazos,
           j_resumo_decisao = resumo,
           j_fase_execucao = (if fase then Sim else Nao) \<rparr>))))))))))))))))))))))"

text \<open>\<open>for p in hits\<close> on JSON values: an exception in one hit ends the loop and the
  function around it.\<close>

fun hits_loop_json ::
  "runtime \<Rightarrow> (json \<Rightarrow> pystr) \<Rightarrow> pystr \<Rightarrow> date option \<Rightarrow> json list \<Rightarrow> registro_json list \<Rightarrow>
   py_exception + registro_json list" where
  "hits_loop_json rt py_str trib desde [] resultados = Inr resultados"
| "hits_loop_json rt py_str trib desde (p # ps) resultados =
     (case processar_hit_json rt py_str trib desde p of
        Inl e \<Rightarrow> Inl e
      | Inr None \<Rightarrow> hits_loop_json rt py_str trib desde ps resultados
      | Inr (Some r) \<Rightarrow> hits_loop_json rt py_str trib desde ps (resultados @ [r]))"

subsection \<open>Vocabulary of the specification\<close>

text \<open>A movement mentions a vocabulary when its lower-cased description contains one of
  the terms as a substring.\<close>

definition menciona :: "runtime \<Rightarrow> pystr list \<Rightarrow> movimento \<Rightarrow> bool" where
  "menciona rt keywords m =
     (\<exists>keyword \<in> set keywords. sublist keyword (str_lower rt (get_descricao m)))"

text \<open>The rendering \<open>"{timestamp}: {description}"\<close> of a movement.\<close>

definition render :: "movimento \<Rightarrow> pystr" where
  "render m = get_dataHora m @ py '': '' @ get_descricao m"

subsection \<open>Example inputs\<close>

definition movs_ex :: "movimento list" where
  "movs_ex =
     [ \<lparr> descricao = Some (py ''Juntada''), dataHora = Some (py ''t0'') \<rparr>,
       \<lparr> descricao = Some (py ''Julgado''), dataHora = Some (py ''t1'') \<rparr>,
       \<lparr> descricao = Some (py ''Prazo''), dataHora = Some (py ''t2'') \<rparr>,
       \<lparr> descricao = Some (py ''DESPACHO''), dataHora = None \<rparr>,
       \<lparr> descricao = Some (py ''Prazo''), dataHora = Some (py ''t4'') \<rparr>,
       \<lparr> descricao = None, dataHora = Some (py ''t5'') \<rparr> ]"

definition src_ex :: source where
  "src_ex = empty_source \<lparr> movimentos := Some movs_ex \<rparr>"

definition no_transport :: "event list \<Rightarrow> request \<Rightarrow> response" where
  "no_transport tr req = Falha"

definition movs_exec :: "movimento list" where
  "movs_exec =
     [ \<lparr> descricao = Some (py ''Juntada''), dataHora = Some (py ''t0'') \<rparr>,
       \<lparr> descricao = Some (py ''Julgado''), dataHora = Some (py ''t1'') \<rparr>,
       \<lparr> descricao = Some (py ''PENHORA de bens''), dataHora = Some (py ''t2'') \<rparr> ]"

definition src_exec :: source where
  "src_exec = empty_source \<lparr> movimentos := Some movs_exec \<rparr>"

definition src_exec_rev :: source where
  "src_exec_rev = empty_source \<lparr> movimentos := Some (rev movs_exec) \<rparr>"

subsection \<open>Vocabulary for traces and pages\<close>

text \<open>The requests and the tribunals announced in a trace, in order.\<close>

definition requests :: "event list \<Rightarrow> request list" where
  "requests tr = List.map_filter (\<lambda>e. case e of Post req \<Rightarrow> Some req | _ \<Rightarrow> None) tr"

definition consultados :: "event list \<Rightarrow> pystr list" where
  "consultados tr = List.map_filter (\<lambda>e. case e of Consultando t \<Rightarrow> Some t | _ \<Rightarrow> None) tr"

text \<open>The trace when page \<open>p\<close> of a query started at trace \<open>tr\<close> is requested, and the
  answer of the transport to that request.\<close>

definition trace_at :: "pystr \<Rightarrow> pystr \<Rightarrow> pystr \<Rightarrow> event list \<Rightarrow> nat \<Rightarrow> event list" where
  "trace_at nome cnpj trib tr p = tr @ map (\<lambda>i. Post (search_request nome cnpj trib i)) [0..<p]"

definition resposta :: "runtime \<Rightarrow> pystr \<Rightarrow> pystr \<Rightarrow> pystr \<Rightarrow> event list \<Rightarrow> nat \<Rightarrow> response" where
  "resposta rt nome cnpj trib tr p =
     session_post rt (trace_at nome cnpj trib tr p) (search_request nome cnpj trib p)"

text \<open>An answer that ends the pagination: a transport failure, a page without hits, or a
  page with fewer hits than the page size.\<close>

definition encerra :: "response \<Rightarrow> bool" where
  "encerra r =
     (case r of Falha \<Rightarrow> True
      | Resposta data \<Rightarrow> get_hits data = [] \<or> length (get_hits data) < page_size)"

text \<open>The rows one answer contributes: those of its hits that pass the date filter.\<close>

definition registros_pagina :: "runtime \<Rightarrow> pystr \<Rightarrow> date option \<Rightarrow> response \<Rightarrow> registro list" where
  "registros_pagina rt trib desde r =
     (case r of Falha \<Rightarrow> []
      | Resposta data \<Rightarrow> List.map_filter (processar_hit rt trib desde) (get_hits data))"

subsection \<open>Example transports\<close>

definition full_pages :: "event list \<Rightarrow> request \<Rightarrow> response" where
  "full_pages tr req =
     Resposta \<lparr> outer_hits = Some \<lparr> inner_hits = Some (replicate 100 \<lparr> hit_source = None \<rparr>) \<rparr> \<rparr>"

subsection \<open>Vocabulary for the date filter\<close>

text \<open>The distribution date of the hit parses to a day strictly before \<open>d\<close>.\<close>

definition data_anterior :: "runtime \<Rightarrow> date \<Rightarrow> hit \<Rightarrow> bool" where
  "data_anterior rt d p =
     (case parse_date rt (get_dataDistribuicao (get_source p)) of
        None \<Rightarrow> False
      | Some dd \<Rightarrow> dd < d)"

text \<open>Example hits: a source with nothing but the given distribution date.\<close>

definition hit_de :: "pystr option \<Rightarrow> hit" where
  "hit_de dist = \<lparr> hit_source = Some (empty_source \<lparr> dataDistribuicao := dist \<rparr>) \<rparr>"

definition hit_antes :: hit where
  "hit_antes = hit_de (Some (py ''2024-01-14T23:59:59Z''))"

definition hit_igual :: hit where
  "hit_igual = hit_de (Some (py ''2024-01-15T00:00:00Z''))"

definition hit_invalida :: hit where
  "hit_invalida = hit_de (Some (py ''sem data''))"

definition hit_sem_data :: hit where
  "hit_sem_data = hit_de None"

subsection \<open>Vocabulary for absent fields\<close>

text \<open>A movement with its absent fields filled in by the empty string.\<close>

definition preencher :: "movimento \<Rightarrow> movimento" where
  "preencher m = \<lparr> descricao = Some (get_descricao m), dataHora = Some (get_dataHora m) \<rparr>"

text \<open>The documents of the contract as JSON values: an absent key stays absent.\<close>

definition campo :: "pystr \<Rightarrow> ('a \<Rightarrow> json) \<Rightarrow> 'a option \<Rightarrow> (pystr \<times> json) list" where
  "campo key enc v = (case v of None \<Rightarrow> [] | Some x \<Rightarrow> [(key, enc x)])"

definition json_of_movimento :: "movimento \<Rightarrow> json" where
  "json_of_movimento m =
     JObj (campo (py ''descricao'') JStr (descricao m) @ campo (py ''dataHora'') JStr (dataHora m))"

definition json_of_parte :: "parte \<Rightarrow> json" where
  "json_of_parte p =
     JObj (campo (py ''tipoParte'') JStr (tipoParte p) @ campo (py ''nome'') JStr (parte_nome p))"

definition json_of_orgao :: "orgao_julgador \<Rightarrow> json" where
  "json_of_orgao oj = JObj (campo (py ''nomeOrgao'') JStr (nomeOrgao oj))"

definition json_of_source :: "source \<Rightarrow> json" where
  "json_of_source src =
     JObj (campo (py ''numeroProcesso'') JStr (numeroProcesso src)
         @ campo (py ''grau'') JStr (src_grau src)
         @ campo (py ''classeProcessual'') JStr (classeProcessual src)
         @ campo (py ''assuntosProcessuais'') (\<lambda>l. JArr (map JStr l)) (assuntosProcessuais src)
         @ campo (py ''orgaoJulgador'') json_of_orgao (orgaoJulgador src)
         @ campo (py ''situacaoProcessual'') JStr (situacaoProcessual src)
         @ campo (py ''partes'') (\<lambda>l. JArr (map json_of_parte l)) (src_partes src)
         @ campo (py ''dataDistribuicao'') JStr (dataDistribuicao src)
         @ campo (py ''movimentos'') (\<lambda>l. JArr (map json_of_movimento l)) (movimentos src))"

definition json_of_hit :: "hit \<Rightarrow> json" where
  "json_of_hit p = JObj (campo (py ''_source'') json_of_source (hit_source p))"

definition opt_json :: "pystr option \<Rightarrow> json" where
  "opt_json v = (case v of None \<Rightarrow> JNull | Some s \<Rightarrow> JStr s)"

definition json_of_registro :: "registro \<Rightarrow> registro_json" where
  "json_of_registro r =
     \<lparr> j_cnj = opt_json (cnj r),
       j_tribunal = tribunal r,
       j_grau = opt_json (grau r),
       j_classe = opt_json (classe r),
       j_assunto = assunto r,
       j_orgao = opt_json (orgao r),
       j_status = opt_json (status r),
       j_partes = partes r,
       j_dt_distribuicao = opt_json (dt_distribuicao r),
       j_qtd_movimentos = qtd_movimentos r,
       j_prazos_relevantes = prazos_relevantes r,
       j_resumo_decisao = resumo_decisao r,
       j_fase_execucao = fase_execucao r \<rparr>"

text \<open>Hits with an explicit \<open>null\<close>.\<close>

definition hit_com :: "pystr \<Rightarrow> json \<Rightarrow> json" where
  "hit_com key v = JObj [(py ''_source'', JObj [(key, v)])]"

definition hit_partes_null :: json where
  "hit_partes_null = hit_com (py ''partes'') JNull"

definition hit_orgao_null :: json where
  "hit_orgao_null = hit_com (py ''orgaoJulgador'') JNull"

definition hit_movimentos_null :: json where
  "hit_movimentos_null = hit_com (py ''movimentos'') JNull"

definition hit_descricao_null :: json where
  "hit_descricao_null = hit_com (py ''movimentos'') (JArr [JObj [(py ''descricao'', JNull)]])"

definition hit_assuntos_null :: json where
  "hit_assuntos_null = hit_com (py ''assuntosProcessuais'') JNull"

subsection \<open>Vocabulary for the aggregation\<close>

text \<open>The tribunal code as \<open>main\<close> passes it on (\<open>tribunal.lower().strip()\<close>) and as it is
  announced and stored (upper case).\<close>

definition normalizar :: "runtime \<Rightarrow> pystr \<Rightarrow> pystr" where
  "normalizar rt t = str_strip rt (str_lower rt t)"

definition anunciado :: "runtime \<Rightarrow> pystr \<Rightarrow> pystr" where
  "anunciado rt t = str_upper rt (normalizar rt t)"

text \<open>The options a collecting run needs are there: the name, the document and at least
  one tribunal, and the self-test is off.\<close>

definition configurado :: "args \<Rightarrow> bool" where
  "configurado a =
     (\<not> arg_selftest a \<and> truthy (arg_nome a) \<noteq> None \<and> truthy (arg_cnpj a) \<noteq> None
      \<and> arg_tribunais a \<noteq> [])"

text \<open>A transport whose first page is full and whose later pages fail, and the options
  of an example run.\<close>

definition falha_na_segunda :: "event list \<Rightarrow> request \<Rightarrow> response" where
  "falha_na_segunda tr req = (if body_from req = 0 then full_pages tr req else Falha)"

definition args_ex :: args where
  "args_ex =
     \<lparr> arg_nome = Some (py ''LOCAR''), arg_cnpj = Some (py ''35474949000108''),
       arg_tribunais = [py ''TJPE '', py ''tjba''], arg_max_paginas = 25,
       arg_desde = None, arg_since_days = None, arg_selftest = False \<rparr>"

subsection \<open>Vocabulary for the deduplication\<close>

text \<open>The positions of a list of rows that hold the first occurrence of their key.\<close>

definition primeiras :: "registro list \<Rightarrow> nat set" where
  "primeiras rs = {i. i < length rs \<and> (\<forall>j<i. chave (rs ! j) \<noteq> chave (rs ! i))}"

text \<open>A transport with a single page of three hits, the third repeating the case number
  of the first.\<close>

definition src_de :: "pystr \<Rightarrow> pystr \<Rightarrow> source" where
  "src_de numero g = empty_source \<lparr> numeroProcesso := Some numero, src_grau := Some g \<rparr>"

definition pagina_unica :: "event list \<Rightarrow> request \<Rightarrow> response" where
  "pagina_unica tr req =
     (if body_from req = 0 then
        Resposta \<lparr> outer_hits = Some \<lparr> inner_hits = Some
          [ \<lparr> hit_source = Some (src_de (py ''0001'') (py ''G1'')) \<rparr>,
            \<lparr> hit_source = Some (src_de (py ''0002'') (py ''G1'')) \<rparr>,
            \<lparr> hit_source = Some (src_de (py ''0001'') (py ''G2'')) \<rparr> ] \<rparr> \<rparr>
      else Falha)"

definition args_dup :: args where
  "args_dup =
     \<lparr> arg_nome = Some (py ''LOCAR''), arg_cnpj = Some (py ''35474949000108''),
       arg_tribunais = [py ''tjpe''], arg_max_paginas = 25,
       arg_desde = None, arg_since_days = None, arg_selftest = False \<rparr>"

definition reg_de :: "pystr \<Rightarrow> pystr \<Rightarrow> registro" where
  "reg_de numero g = montar_registro (rt0 pagina_unica) (py ''tjpe'') (src_de numero g)"

subsection \<open>Example command lines\<close>

text \<open>Example options: an empty \<open>--desde\<close>, a \<open>--desde\<close> in the wrong format, and
  \<open>--since-days\<close> with 0, 30 and 1000000.\<close>

definition args_desde_vazio :: args where
  "args_desde_vazio = args_ex \<lparr> arg_desde := Some [] \<rparr>"

definition args_desde_invalido :: args where
  "args_desde_invalido = args_ex \<lparr> arg_desde := Some (py ''15/01/2024'') \<rparr>"

definition args_since :: "int \<Rightarrow> args" where
  "args_since n = args_ex \<lparr> arg_since_days := Some n \<rparr>"

subsection \<open>Vocabulary for a transport without memory\<close>

text \<open>For a transport that answers a request by \<open>f\<close> whatever the trace: the number of
  pages a query requests, and the rows a tribunal and a whole list of tribunals yield.\<close>

definition paginas_consultadas :: "(request \<Rightarrow> response) \<Rightarrow> pystr \<Rightarrow> pystr \<Rightarrow> pystr \<Rightarrow> int \<Rightarrow> nat" where
  "paginas_consultadas f nome cnpj trib N =
     (case find (\<lambda>p. encerra (f (search_request nome cnpj trib p))) [0..<nat N] of
        None \<Rightarrow> nat N
      | Some p \<Rightarrow> Suc p)"

definition linhas_filtradas :: "runtime \<Rightarrow> pystr \<Rightarrow> date option \<Rightarrow> response \<Rightarrow> registro list" where
  "linhas_filtradas rt trib desde r =
     (case r of
        Falha \<Rightarrow> []
      | Resposta data \<Rightarrow>
          map (\<lambda>p. montar_registro rt trib (get_source p))
            (filter (\<lambda>p. case desde of None \<Rightarrow> True | Some d \<Rightarrow> \<not> data_anterior rt d p)
               (get_hits data)))"

definition linhas_tribunal ::
  "runtime \<Rightarrow> (request \<Rightarrow> response) \<Rightarrow> pystr \<Rightarrow> pystr \<Rightarrow> int \<Rightarrow> date option \<Rightarrow> pystr \<Rightarrow>
   registro list" where
  "linhas_tribunal rt f nome cnpj N desde t =
     concat (map (\<lambda>p. linhas_filtradas rt (normalizar rt t) desde
                        (f (search_request nome cnpj (normalizar rt t) p)))
               [0..<paginas_consultadas f nome cnpj (normalizar rt t) N])"

definition sem_memoria :: "runtime \<Rightarrow> (request \<Rightarrow> response) \<Rightarrow> bool" where
  "sem_memoria rt f = (\<forall>tr req. session_post rt tr req = f req)"

text \<open>The trace when the query of the \<open>i\<close>-th tribunal of the list starts.\<close>

definition trace_tribunal ::
  "runtime \<Rightarrow> pystr \<Rightarrow> pystr \<Rightarrow> int \<Rightarrow> date option \<Rightarrow> pystr list \<Rightarrow> event list \<Rightarrow> nat \<Rightarrow>
   event list" where
  "trace_tribunal rt nome cnpj N desde ts tr i =
     snd (tribunais_loop rt nome cnpj N desde (take i ts) [] tr)
       @ [Consultando (anunciado rt (ts ! i))]"

text \<open>A transport without memory where only the first page of tjba has hits: the three
  hits of \<open>pagina_unica\<close>.\<close>

definition so_tjba :: "request \<Rightarrow> response" where
  "so_tjba req =
     (if endpoint req = BASE_URL @ py ''tjba'' @ py ''/_search'' \<and> body_from req = 0
      then pagina_unica [] req else Falha)"

definition reg_tjba :: "pystr \<Rightarrow> pystr \<Rightarrow> registro" where
  "reg_tjba numero g =
     montar_registro (rt0 (\<lambda>tr. so_tjba)) (py ''tjba'') (src_de numero g)"

subsection \<open>Vocabulary for the date option\<close>

text \<open>A valid \<open>YYYY-MM-DD\<close> date: ten characters, digits with a dash in the fifth and the
  eighth place, naming a month of the year and a day of that month, in a year from 1 on.\<close>

definition is_digit :: "nat \<Rightarrow> bool" where
  "is_digit c = (48 \<le> c \<and> c \<le> 57)"

definition number_of :: "pystr \<Rightarrow> nat" where
  "number_of s = foldl (\<lambda>a c. 10 * a + (c - 48)) 0 s"

definition valid_ymd :: "pystr \<Rightarrow> bool" where
  "valid_ymd s =
     (length s = 10
      \<and> list_all is_digit (take 4 s) \<and> s ! 4 = 45
      \<and> list_all is_digit (take 2 (drop 5 s)) \<and> s ! 7 = 45
      \<and> list_all is_digit (drop 8 s)
      \<and> (let y = number_of (take 4 s); m = number_of (take 2 (drop 5 s));
              d = number_of (drop 8 s)
          in 1 \<le> y \<and> 1 \<le> m \<and> m \<le> 12 \<and> 1 \<le> d \<and> d \<le> days_in_month y m))"

text \<open>The reference runtime with the parser of CPython up to 3.10, and an example command
  line with a date in the compact form.\<close>

definition rt_310 :: runtime where
  "rt_310 = (rt0 no_transport) \<lparr> date_fromisoformat := fromisoformat_310 \<rparr>"

definition args_desde_compacto :: args where
  "args_desde_compacto = args_ex \<lparr> arg_desde := Some (py ''20240115'') \<rparr>"

subsection \<open>Example hits with dates\<close>

text \<open>A transport without memory whose first page, for every tribunal, has a hit
  distributed on 2024-01-15 and one distributed on 2026-10-20.\<close>

definition src_datado :: "pystr \<Rightarrow> pystr \<Rightarrow> source" where
  "src_datado numero dist =
     empty_source \<lparr> numeroProcesso := Some numero, dataDistribuicao := Some dist \<rparr>"

definition duas_datas :: "request \<Rightarrow> response" where
  "duas_datas req =
     (if body_from req = 0 then
        Resposta \<lparr> outer_hits = Some \<lparr> inner_hits = Some
          [ \<lparr> hit_source = Some (src_datado (py ''0001'') (py ''2024-01-15T00:00:00Z'')) \<rparr>,
            \<lparr> hit_source = Some (src_datado (py ''0002'') (py ''2026-10-20T08:00:00Z'')) \<rparr> ]
          \<rparr> \<rparr>
      else Falha)"

definition reg_datado :: "pystr \<Rightarrow> pystr \<Rightarrow> pystr \<Rightarrow> registro" where
  "reg_datado trib numero dist =
     montar_registro (rt0 (\<lambda>tr. duas_datas)) trib (src_datado numero dist)"

section \<open>Properties\<close>

subsection \<open>Auxiliary facts\<close>

lemmas eval_simps = py_def rt0_def lower_cp_def upper_cp_def get_descricao_def get_dataHora_def
  KEYWORDS_PRAZO_def KEYWORDS_DECISAO_def KEYWORDS_EXECUCAO_def menciona_def render_def
  sublist_Cons_right get_movimentos_def empty_source_def

lemmas iso_simps = fromisoformat0_def parse_isoformat_date_def parse_digits_def utf8_len_def
  skip_dash_def digit_def new_date_def ymd2ord_def days_in_month_def is_leap_def
  iso_to_date_def iso_week1_monday_def weekday_jan1_def MAXORDINAL_def

lemma py_in_sublist: "py_in keyword s \<longleftrightarrow> sublist keyword s"
  by (induction s) (auto simp: sublist_Cons_right)

lemma any_keyword_in_menciona:
  "any_keyword_in keywords (str_lower rt (get_descricao m)) \<longleftrightarrow> menciona rt keywords m"
  by (simp add: any_keyword_in_def menciona_def list_ex_iff py_in_sublist)

lemma prazos_loop_filter:
  "prazos_loop rt ms acc = acc @ map render (filter (menciona rt KEYWORDS_PRAZO) ms)"
  by (induction ms arbitrary: acc) (simp_all add: any_keyword_in_menciona render_def)

lemma resumo_loop_find:
  "resumo_loop rt ms =
     (case find (menciona rt KEYWORDS_DECISAO) ms of None \<Rightarrow> [] | Some m \<Rightarrow> get_descricao m)"
  by (induction ms) (simp_all add: any_keyword_in_menciona)

lemma find_rev_last_filter:
  "find P (rev xs) = (if filter P xs = [] then None else Some (last (filter P xs)))"
  by (induction xs rule: rev_induct) auto

lemma fase_de_iff: "fase_de rt movs \<longleftrightarrow> (\<exists>m \<in> set movs. menciona rt KEYWORDS_EXECUCAO m)"
  by (auto simp: fase_de_def list_ex_iff menciona_def py_in_sublist)

lemma Sim_neq_Nao: "Sim \<noteq> Nao"
  by (simp add: Sim_def Nao_def py_def)

subsection \<open>Classification\<close>

text \<open>
  C1. For every movement log, the decision summary of the row is the description of the
  last movement, in the order of the log, that mentions the decision vocabulary, and the
  empty string when none does. This is the first such movement met when the log is read
  backwards.
\<close>

theorem last_decision_summary:
  "resumo_decisao (montar_registro rt trib src) =
     (let matches = filter (menciona rt KEYWORDS_DECISAO) (get_movimentos src)
      in if matches = [] then [] else get_descricao (last matches))
   \<and> resumo_decisao (montar_registro rt trib src) =
     (case find (menciona rt KEYWORDS_DECISAO) (rev (get_movimentos src)) of
        None \<Rightarrow> [] | Some m \<Rightarrow> get_descricao m)"
  by (simp add: montar_registro_def Let_def resumo_de_def resumo_loop_find find_rev_last_filter)

theorem last_decision_summary_witness:
  "resumo_decisao (montar_registro (rt0 no_transport) (py ''tjpe'') src_ex) = py ''DESPACHO''
   \<and> filter (menciona (rt0 no_transport) KEYWORDS_DECISAO) (get_movimentos src_ex) =
       [movs_ex ! 1, movs_ex ! 3]"
  using last_decision_summary [of "rt0 no_transport" "py ''tjpe''" src_ex]
  by (simp add: src_ex_def movs_ex_def eval_simps)

text \<open>
  C2. For every movement log, the deadlines of the row are the movements that mention the
  deadline vocabulary, each rendered as timestamp, colon, space, description, in the order
  of the log and as often as they occur, joined by newlines.
\<close>

theorem relevant_deadlines_subsequence:
  "prazos_relevantes (montar_registro rt trib src) =
     join [10] (map render (filter (menciona rt KEYWORDS_PRAZO) (get_movimentos src)))"
  by (simp add: montar_registro_def Let_def prazos_loop_filter)

theorem relevant_deadlines_subsequence_witness:
  "prazos_relevantes (montar_registro (rt0 no_transport) (py ''tjpe'') src_ex) =
     py ''t2: Prazo'' @ [10] @ py ''t4: Prazo''"
  using relevant_deadlines_subsequence [of "rt0 no_transport" "py ''tjpe''" src_ex]
  by (simp add: src_ex_def movs_ex_def eval_simps)

text \<open>
  C3. For every movement log, the row is marked as in the execution phase exactly when
  some movement of the log mentions the execution vocabulary; the mark depends on which
  movements occur, not on where they stand.
\<close>

theorem in_execution_phase_iff:
  "(fase_execucao (montar_registro rt trib src) = Sim \<longleftrightarrow>
      (\<exists>m \<in> set (get_movimentos src). menciona rt KEYWORDS_EXECUCAO m))
   \<and> (fase_execucao (montar_registro rt trib src) = Nao \<longleftrightarrow>
      \<not> (\<exists>m \<in> set (get_movimentos src). menciona rt KEYWORDS_EXECUCAO m))
   \<and> (\<forall>src'. set (get_movimentos src') = set (get_movimentos src) \<longrightarrow>
        fase_execucao (montar_registro rt trib src') = fase_execucao (montar_registro rt trib src))"
  using Sim_neq_Nao by (auto simp: montar_registro_def Let_def fase_de_iff)

theorem in_execution_phase_iff_witness:
  "fase_execucao (montar_registro (rt0 no_transport) (py ''tjpe'') src_exec) = Sim
   \<and> menciona (rt0 no_transport) KEYWORDS_EXECUCAO (movs_exec ! 2)
   \<and> fase_execucao (montar_registro (rt0 no_transport) (py ''tjpe'') src_ex) = Nao
   \<and> set (get_movimentos src_exec_rev) = set (get_movimentos src_exec)
   \<and> fase_execucao (montar_registro (rt0 no_transport) (py ''tjpe'') src_exec_rev) = Sim"
proof -
  note exec = in_execution_phase_iff [of "rt0 no_transport" "py ''tjpe''" src_exec]
  note plain = in_execution_phase_iff [of "rt0 no_transport" "py ''tjpe''" src_ex]
  have m: "menciona (rt0 no_transport) KEYWORDS_EXECUCAO (movs_exec ! 2)"
    by (simp add: movs_exec_def eval_simps)
  have "movs_exec ! 2 \<in> set (get_movimentos src_exec)"
    by (simp add: src_exec_def movs_exec_def get_movimentos_def)
  with m exec have a: "fase_execucao (montar_registro (rt0 no_transport) (py ''tjpe'') src_exec) = Sim"
    by blast
  have "\<not> (\<exists>m \<in> set (get_movimentos src_ex). menciona (rt0 no_transport) KEYWORDS_EXECUCAO m)"
    by (simp add: src_ex_def movs_ex_def eval_simps)
  with plain have b: "fase_execucao (montar_registro (rt0 no_transport) (py ''tjpe'') src_ex) = Nao"
    by blast
  have s: "set (get_movimentos src_exec_rev) = set (get_movimentos src_exec)"
    by (simp add: src_exec_def src_exec_rev_def get_movimentos_def)
  with exec a have c: "fase_execucao (montar_registro (rt0 no_transport) (py ''tjpe'') src_exec_rev) = Sim"
    by metis
  from a m b s c show ?thesis by blast
qed

subsection \<open>Pagination\<close>

lemma hits_loop_map_filter:
  "hits_loop rt trib desde hs res = res @ List.map_filter (processar_hit rt trib desde) hs"
  by (induction hs arbitrary: res) (simp_all add: List.map_filter_simps split: option.splits)

lemma trace_at_Suc:
  "trace_at nome cnpj trib tr (Suc p) = trace_at nome cnpj trib tr p @ [Post (search_request nome cnpj trib p)]"
  by (simp add: trace_at_def)

lemma paginas_step_encerra:
  assumes "encerra (resposta rt nome cnpj trib tr k)"
  shows "paginas_loop rt nome cnpj trib desde (k # rest) res (trace_at nome cnpj trib tr k) =
     (res @ registros_pagina rt trib desde (resposta rt nome cnpj trib tr k),
      trace_at nome cnpj trib tr (Suc k) @
        (if resposta rt nome cnpj trib tr k = Falha
         then [WarnFalha (str_upper rt trib) (Suc k)] else []))"
proof (cases "resposta rt nome cnpj trib tr k")
  case Falha
  then show ?thesis
    by (simp add: resposta_def registros_pagina_def trace_at_Suc)
next
  case (Resposta data)
  with assms have "get_hits data = [] \<or> length (get_hits data) < page_size"
    by (simp add: encerra_def)
  with Resposta show ?thesis
    by (auto simp: resposta_def registros_pagina_def trace_at_Suc hits_loop_map_filter Let_def
        List.map_filter_simps)
qed

lemma paginas_step_continua:
  assumes "\<not> encerra (resposta rt nome cnpj trib tr k)"
  shows "paginas_loop rt nome cnpj trib desde (k # rest) res (trace_at nome cnpj trib tr k) =
     paginas_loop rt nome cnpj trib desde rest
       (res @ registros_pagina rt trib desde (resposta rt nome cnpj trib tr k))
       (trace_at nome cnpj trib tr (Suc k))"
proof (cases "resposta rt nome cnpj trib tr k")
  case Falha
  with assms show ?thesis by (simp add: encerra_def)
next
  case (Resposta data)
  with assms have "get_hits data \<noteq> []" "\<not> length (get_hits data) < page_size"
    by (simp_all add: encerra_def)
  with Resposta show ?thesis
    by (simp add: resposta_def registros_pagina_def trace_at_Suc hits_loop_map_filter Let_def)
qed

lemma paginas_loop_char:
  "\<exists>j. k \<le> j \<and> (k \<le> n \<longrightarrow> j \<le> n)
     \<and> (\<forall>p. k \<le> p \<and> Suc p < j \<longrightarrow> \<not> encerra (resposta rt nome cnpj trib tr p))
     \<and> (j < n \<longrightarrow> k < j \<and> encerra (resposta rt nome cnpj trib tr (j - 1)))
     \<and> paginas_loop rt nome cnpj trib desde [k..<n] res (trace_at nome cnpj trib tr k) =
         (res @ concat (map (\<lambda>p. registros_pagina rt trib desde (resposta rt nome cnpj trib tr p)) [k..<j]),
          trace_at nome cnpj trib tr j @
            (if k < j \<and> resposta rt nome cnpj trib tr (j - 1) = Falha
             then [WarnFalha (str_upper rt trib) j] else []))"
proof (induction "n - k" arbitrary: k res)
  case 0
  then have "n \<le> k" by simp
  then show ?case by (intro exI[of _ k]) auto
next
  case (Suc d)
  then have kn: "k < n" and d: "d = n - Suc k" by simp_all
  have upt: "[k..<n] = k # [Suc k..<n]" using kn by (simp add: upt_conv_Cons)
  let ?r = "resposta rt nome cnpj trib tr k"
  show ?case
  proof (cases "encerra ?r")
    case True
    have "paginas_loop rt nome cnpj trib desde [k..<n] res (trace_at nome cnpj trib tr k) =
         (res @ concat (map (\<lambda>p. registros_pagina rt trib desde (resposta rt nome cnpj trib tr p)) [k..<Suc k]),
          trace_at nome cnpj trib tr (Suc k) @
            (if k < Suc k \<and> resposta rt nome cnpj trib tr (Suc k - 1) = Falha
             then [WarnFalha (str_upper rt trib) (Suc k)] else []))"
      unfolding upt paginas_step_encerra[OF True] by simp
    moreover have "\<forall>p. k \<le> p \<and> Suc p < Suc k \<longrightarrow> \<not> encerra (resposta rt nome cnpj trib tr p)"
      by auto
    moreover have "Suc k < n \<longrightarrow> k < Suc k \<and> encerra (resposta rt nome cnpj trib tr (Suc k - 1))"
      using True by simp
    ultimately show ?thesis using kn by (intro exI[of _ "Suc k"]) simp
  next
    case False
    from Suc.hyps(1)[OF d, of "res @ registros_pagina rt trib desde ?r"]
    obtain j where j1: "Suc k \<le> j" and j2: "Suc k \<le> n \<longrightarrow> j \<le> n"
      and j3: "\<forall>p. Suc k \<le> p \<and> Suc p < j \<longrightarrow> \<not> encerra (resposta rt nome cnpj trib tr p)"
      and j4: "j < n \<longrightarrow> Suc k < j \<and> encerra (resposta rt nome cnpj trib tr (j - 1))"
      and j5: "paginas_loop rt nome cnpj trib desde [Suc k..<n] (res @ registros_pagina rt trib desde ?r)
         (trace_at nome cnpj trib tr (Suc k)) =
         ((res @ registros_pagina rt trib desde ?r) @
            concat (map (\<lambda>p. registros_pagina rt trib desde (resposta rt nome cnpj trib tr p)) [Suc k..<j]),
          trace_at nome cnpj trib tr j @
            (if Suc k < j \<and> resposta rt nome cnpj trib tr (j - 1) = Falha
             then [WarnFalha (str_upper rt trib) j] else []))"
      by blast
    have nf: "resposta rt nome cnpj trib tr (j - 1) = Falha \<longrightarrow> Suc k < j"
    proof
      assume f: "resposta rt nome cnpj trib tr (j - 1) = Falha"
      show "Suc k < j"
      proof (rule ccontr)
        assume "\<not> Suc k < j"
        with j1 have "j - 1 = k" by simp
        with f False show False by (simp add: encerra_def)
      qed
    qed
    have uptj: "[k..<j] = k # [Suc k..<j]" using j1 by (simp add: upt_conv_Cons)
    have kj: "k < j" using j1 by simp
    have eq: "paginas_loop rt nome cnpj trib desde [k..<n] res (trace_at nome cnpj trib tr k) =
         (res @ concat (map (\<lambda>p. registros_pagina rt trib desde (resposta rt nome cnpj trib tr p)) [k..<j]),
          trace_at nome cnpj trib tr j @
            (if k < j \<and> resposta rt nome cnpj trib tr (j - 1) = Falha
             then [WarnFalha (str_upper rt trib) j] else []))"
      unfolding upt paginas_step_continua[OF False] j5 uptj using nf kj by simp
    have all: "\<forall>p. k \<le> p \<and> Suc p < j \<longrightarrow> \<not> encerra (resposta rt nome cnpj trib tr p)"
    proof (intro allI impI)
      fix p assume p: "k \<le> p \<and> Suc p < j"
      show "\<not> encerra (resposta rt nome cnpj trib tr p)"
      proof (cases "p = k")
        case True then show ?thesis using False by simp
      next
        case False
        with p have "Suc k \<le> p \<and> Suc p < j" by simp
        with j3 show ?thesis by blast
      qed
    qed
    have fin: "j < n \<longrightarrow> k < j \<and> encerra (resposta rt nome cnpj trib tr (j - 1))"
      using j4 kj by simp
    from kj j2 kn all fin eq show ?thesis by (intro exI[of _ j]) simp
  qed
qed

lemma requests_append: "requests (xs @ ys) = requests xs @ requests ys"
  by (simp add: requests_def List.map_filter_def)

lemma consultados_append: "consultados (xs @ ys) = consultados xs @ consultados ys"
  by (simp add: consultados_def List.map_filter_def)

lemma requests_Posts: "requests (map (\<lambda>i. Post (f i)) is) = map f is"
  by (induction "is") (simp_all add: requests_def List.map_filter_simps)

lemma consultados_Posts: "consultados (map (\<lambda>i. Post (f i)) is) = []"
  by (induction "is") (simp_all add: consultados_def List.map_filter_simps)

lemma requests_trace_at:
  "requests (trace_at nome cnpj trib tr j) = requests tr @ map (search_request nome cnpj trib) [0..<j]"
  by (simp add: trace_at_def requests_append requests_Posts)

lemma consultados_trace_at: "consultados (trace_at nome cnpj trib tr j) = consultados tr"
  by (simp add: trace_at_def consultados_append consultados_Posts)

lemma requests_WarnFalha: "requests [WarnFalha t n] = []" "requests [] = []"
  by (simp_all add: requests_def List.map_filter_simps)

lemma trace_at_0: "trace_at nome cnpj trib tr 0 = tr"
  by (simp add: trace_at_def)

lemma buscar_processos_char:
  "\<exists>j. j \<le> nat N
     \<and> (\<forall>p. Suc p < j \<longrightarrow> \<not> encerra (resposta rt nome cnpj trib tr p))
     \<and> (j < nat N \<longrightarrow> 0 < j \<and> encerra (resposta rt nome cnpj trib tr (j - 1)))
     \<and> buscar_processos rt nome cnpj trib N desde tr =
         (concat (map (\<lambda>p. registros_pagina rt trib desde (resposta rt nome cnpj trib tr p)) [0..<j]),
          trace_at nome cnpj trib tr j @
            (if 0 < j \<and> resposta rt nome cnpj trib tr (j - 1) = Falha
             then [WarnFalha (str_upper rt trib) j] else []))"
  using paginas_loop_char [of 0 "nat N" rt nome cnpj trib tr desde "[]"]
  by (simp add: buscar_processos_def trace_at_0)

lemma encerra_page_size: "length (get_hits d) = page_size \<Longrightarrow> \<not> encerra (Resposta d)"
  by (auto simp: encerra_def page_size_def)

text \<open>
  C4. A query with \<open>max_paginas = N\<close> requests the pages 0, 1, ... in order and at most
  \<open>N\<close> of them. No page before the last one requested ended the query, and when fewer
  than \<open>N\<close> pages were requested the last one did: it had no hits, or fewer than 100, or
  the transport failed. In particular, when every page has exactly 100 hits, exactly
  \<open>N\<close> requests are issued.
\<close>

theorem pagination_stops:
  "(\<exists>j. j \<le> nat N
     \<and> requests (snd (buscar_processos rt nome cnpj trib N desde tr)) =
         requests tr @ map (search_request nome cnpj trib) [0..<j]
     \<and> (\<forall>p. Suc p < j \<longrightarrow> \<not> encerra (resposta rt nome cnpj trib tr p))
     \<and> (j < nat N \<longrightarrow> 0 < j \<and> encerra (resposta rt nome cnpj trib tr (j - 1))))
   \<and> ((\<forall>p < nat N. \<exists>d. resposta rt nome cnpj trib tr p = Resposta d
                            \<and> length (get_hits d) = page_size) \<longrightarrow>
        requests (snd (buscar_processos rt nome cnpj trib N desde tr)) =
          requests tr @ map (search_request nome cnpj trib) [0..<nat N])"
proof -
  obtain j where j: "j \<le> nat N"
    "\<forall>p. Suc p < j \<longrightarrow> \<not> encerra (resposta rt nome cnpj trib tr p)"
    "j < nat N \<longrightarrow> 0 < j \<and> encerra (resposta rt nome cnpj trib tr (j - 1))"
    "buscar_processos rt nome cnpj trib N desde tr =
         (concat (map (\<lambda>p. registros_pagina rt trib desde (resposta rt nome cnpj trib tr p)) [0..<j]),
          trace_at nome cnpj trib tr j @
            (if 0 < j \<and> resposta rt nome cnpj trib tr (j - 1) = Falha
             then [WarnFalha (str_upper rt trib) j] else []))"
    using buscar_processos_char [of N rt nome cnpj trib tr desde] by blast
  have req: "requests (snd (buscar_processos rt nome cnpj trib N desde tr)) =
         requests tr @ map (search_request nome cnpj trib) [0..<j]"
    by (simp add: j(4) requests_append requests_trace_at requests_WarnFalha)
  have full: "j = nat N"
    if all: "\<forall>p < nat N. \<exists>d. resposta rt nome cnpj trib tr p = Resposta d
                            \<and> length (get_hits d) = page_size"
  proof (rule ccontr)
    assume "j \<noteq> nat N"
    with j(1) have lt: "j < nat N" by simp
    with j(3) have "0 < j" and e: "encerra (resposta rt nome cnpj trib tr (j - 1))" by simp_all
    then have "j - 1 < nat N" using lt by simp
    with all obtain d where "resposta rt nome cnpj trib tr (j - 1) = Resposta d"
      "length (get_hits d) = page_size" by blast
    with e encerra_page_size show False by simp
  qed
  from j(1) req j(2) j(3) have first: "\<exists>j. j \<le> nat N
     \<and> requests (snd (buscar_processos rt nome cnpj trib N desde tr)) =
         requests tr @ map (search_request nome cnpj trib) [0..<j]
     \<and> (\<forall>p. Suc p < j \<longrightarrow> \<not> encerra (resposta rt nome cnpj trib tr p))
     \<and> (j < nat N \<longrightarrow> 0 < j \<and> encerra (resposta rt nome cnpj trib tr (j - 1)))"
    by blast
  from full req have second: "(\<forall>p < nat N. \<exists>d. resposta rt nome cnpj trib tr p = Resposta d
                            \<and> length (get_hits d) = page_size) \<longrightarrow>
        requests (snd (buscar_processos rt nome cnpj trib N desde tr)) =
          requests tr @ map (search_request nome cnpj trib) [0..<nat N]"
    by simp
  from first second show ?thesis by (rule conjI)
qed

theorem pagination_stops_witness:
  "requests (snd (buscar_processos (rt0 full_pages) (py ''LOCAR'') (py ''35474949000108'')
       (py ''tjpe'') 3 None [])) =
     map (search_request (py ''LOCAR'') (py ''35474949000108'') (py ''tjpe'')) [0..<3]
   \<and> length (requests (snd (buscar_processos (rt0 full_pages) (py ''LOCAR'')
       (py ''35474949000108'') (py ''tjpe'') 3 None []))) = 3
   \<and> requests (snd (buscar_processos (rt0 pagina_unica) (py ''LOCAR'') (py ''35474949000108'')
       (py ''tjpe'') 25 None [])) =
     [search_request (py ''LOCAR'') (py ''35474949000108'') (py ''tjpe'') 0]"
proof -
  let ?nome = "py ''LOCAR''" and ?cnpj = "py ''35474949000108''" and ?trib = "py ''tjpe''"
  have full: "requests (snd (buscar_processos (rt0 full_pages) ?nome ?cnpj ?trib 3 None [])) =
     map (search_request ?nome ?cnpj ?trib) [0..<3]"
    using pagination_stops [of 3 "rt0 full_pages" ?nome ?cnpj ?trib None "[]"]
    by (simp add: resposta_def rt0_def full_pages_def get_hits_def page_size_def
        requests_WarnFalha)
  have short: "encerra (resposta (rt0 pagina_unica) ?nome ?cnpj ?trib [] 0)"
    by (simp add: resposta_def rt0_def pagina_unica_def search_request_def encerra_def
        get_hits_def page_size_def)
  from pagination_stops [of 25 "rt0 pagina_unica" ?nome ?cnpj ?trib None "[]"]
  obtain j where j: "j \<le> nat 25"
    "requests (snd (buscar_processos (rt0 pagina_unica) ?nome ?cnpj ?trib 25 None [])) =
       requests [] @ map (search_request ?nome ?cnpj ?trib) [0..<j]"
    "\<forall>p. Suc p < j \<longrightarrow> \<not> encerra (resposta (rt0 pagina_unica) ?nome ?cnpj ?trib [] p)"
    "j < nat 25 \<longrightarrow> 0 < j \<and> encerra (resposta (rt0 pagina_unica) ?nome ?cnpj ?trib [] (j - 1))"
    by blast
  from j(3) short have "\<not> Suc 0 < j" by blast
  moreover from this j(4) have "0 < j" by simp
  ultimately have "j = 1" by simp
  with j(2) have one: "requests (snd (buscar_processos (rt0 pagina_unica) ?nome ?cnpj ?trib
       25 None [])) = [search_request ?nome ?cnpj ?trib 0]"
    by (simp add: requests_WarnFalha)
  from full one show ?thesis by simp
qed

lemma buscar_processos_falha:
  assumes full: "\<forall>p < k. \<not> encerra (resposta rt nome cnpj trib tr p)"
    and k: "k < nat N"
    and f: "resposta rt nome cnpj trib tr k = Falha"
  shows "buscar_processos rt nome cnpj trib N desde tr =
     (concat (map (\<lambda>p. registros_pagina rt trib desde (resposta rt nome cnpj trib tr p)) [0..<k]),
      trace_at nome cnpj trib tr (Suc k) @ [WarnFalha (str_upper rt trib) (Suc k)])"
proof -
  obtain j where j: "j \<le> nat N"
    "\<forall>p. Suc p < j \<longrightarrow> \<not> encerra (resposta rt nome cnpj trib tr p)"
    "j < nat N \<longrightarrow> 0 < j \<and> encerra (resposta rt nome cnpj trib tr (j - 1))"
    "buscar_processos rt nome cnpj trib N desde tr =
         (concat (map (\<lambda>p. registros_pagina rt trib desde (resposta rt nome cnpj trib tr p)) [0..<j]),
          trace_at nome cnpj trib tr j @
            (if 0 < j \<and> resposta rt nome cnpj trib tr (j - 1) = Falha
             then [WarnFalha (str_upper rt trib) j] else []))"
    using buscar_processos_char [of N rt nome cnpj trib tr desde] by blast
  have ek: "encerra (resposta rt nome cnpj trib tr k)" by (simp add: f encerra_def)
  have "\<not> Suc k < j" using j(2) ek by blast
  moreover have "\<not> j < Suc k"
  proof
    assume lt: "j < Suc k"
    with k have "j < nat N" by simp
    with j(3) have "0 < j" "encerra (resposta rt nome cnpj trib tr (j - 1))" by simp_all
    moreover from lt \<open>0 < j\<close> have "j - 1 < k" by simp
    ultimately show False using full by blast
  qed
  ultimately have "j = Suc k" by simp
  with j(4) f show ?thesis by (simp add: registros_pagina_def)
qed

subsection \<open>The date filter\<close>

text \<open>
  C5. Under a date filter \<open>d\<close>, a hit is dropped exactly when its distribution date parses
  to a day strictly before \<open>d\<close>. A hit whose date parses to \<open>d\<close> itself is kept, and so is
  a hit whose date does not parse or is absent (the empty string does not parse). A page
  contributes the rows of the hits that are not dropped, in their order.
\<close>

theorem date_filter_fail_open:
  "(processar_hit rt trib (Some d) p = None \<longleftrightarrow>
      (\<exists>dd. parse_date rt (get_dataDistribuicao (get_source p)) = Some dd \<and> dd < d))
   \<and> (processar_hit rt trib (Some d) p \<noteq> None \<longrightarrow>
        processar_hit rt trib (Some d) p = Some (montar_registro rt trib (get_source p)))
   \<and> (parse_date rt (get_dataDistribuicao (get_source p)) = Some d \<longrightarrow>
        processar_hit rt trib (Some d) p = Some (montar_registro rt trib (get_source p)))
   \<and> (parse_date rt (get_dataDistribuicao (get_source p)) = None \<longrightarrow>
        processar_hit rt trib (Some d) p = Some (montar_registro rt trib (get_source p)))
   \<and> (dataDistribuicao (get_source p) = None \<and> date_fromisoformat rt [] = None \<longrightarrow>
        processar_hit rt trib (Some d) p = Some (montar_registro rt trib (get_source p)))
   \<and> hits_loop rt trib (Some d) hits resultados =
        resultados @ map (\<lambda>p. montar_registro rt trib (get_source p))
                       (filter (\<lambda>p. \<not> data_anterior rt d p) hits)"
proof -
  have loop: "hits_loop rt trib (Some d) hits resultados =
        resultados @ map (\<lambda>p. montar_registro rt trib (get_source p))
                       (filter (\<lambda>p. \<not> data_anterior rt d p) hits)"
    by (induction hits arbitrary: resultados)
       (auto simp: processar_hit_def data_anterior_def Let_def split: option.splits)
  have missing: "dataDistribuicao (get_source p) = None \<and> date_fromisoformat rt [] = None \<longrightarrow>
        processar_hit rt trib (Some d) p = Some (montar_registro rt trib (get_source p))"
    by (simp add: processar_hit_def parse_date_def get_dataDistribuicao_def Let_def)
  show ?thesis
    using loop missing
    by (auto simp: processar_hit_def Let_def split: option.splits)
qed

lemma parse_date_rt0_examples:
  "parse_date (rt0 t) (py ''2024-01-14T23:59:59Z'') = Some 738899"
  "parse_date (rt0 t) (py ''2024-01-15T00:00:00Z'') = Some 738900"
  "parse_date (rt0 t) (py ''sem data'') = None"
  "date_fromisoformat (rt0 t) [] = None"
  by (simp_all add: parse_date_def rt0_def py_def iso_simps)

lemma hit_de_dataDistribuicao:
  "get_dataDistribuicao (get_source (hit_de (Some s))) = s"
  "dataDistribuicao (get_source (hit_de None)) = None"
  by (simp_all add: hit_de_def get_source_def get_dataDistribuicao_def empty_source_def)

theorem date_filter_fail_open_witness:
  "processar_hit (rt0 no_transport) (py ''tjpe'') (Some 738900) hit_antes = None
   \<and> processar_hit (rt0 no_transport) (py ''tjpe'') (Some 738900) hit_igual =
       Some (montar_registro (rt0 no_transport) (py ''tjpe'') (get_source hit_igual))
   \<and> processar_hit (rt0 no_transport) (py ''tjpe'') (Some 738900) hit_invalida =
       Some (montar_registro (rt0 no_transport) (py ''tjpe'') (get_source hit_invalida))
   \<and> processar_hit (rt0 no_transport) (py ''tjpe'') (Some 738900) hit_sem_data =
       Some (montar_registro (rt0 no_transport) (py ''tjpe'') (get_source hit_sem_data))
   \<and> hits_loop (rt0 no_transport) (py ''tjpe'') (Some 738900)
         [hit_antes, hit_igual, hit_invalida, hit_sem_data] [] =
       map (\<lambda>p. montar_registro (rt0 no_transport) (py ''tjpe'') (get_source p))
         [hit_igual, hit_invalida, hit_sem_data]"
proof -
  let ?rt = "rt0 no_transport"
  have p0: "parse_date ?rt (get_dataDistribuicao (get_source hit_antes)) = Some 738899"
    and p1: "parse_date ?rt (get_dataDistribuicao (get_source hit_igual)) = Some 738900"
    and p2: "parse_date ?rt (get_dataDistribuicao (get_source hit_invalida)) = None"
    and p3: "dataDistribuicao (get_source hit_sem_data) = None"
    and p4: "date_fromisoformat ?rt [] = None"
    by (simp_all add: hit_antes_def hit_igual_def hit_invalida_def hit_sem_data_def
        hit_de_dataDistribuicao parse_date_rt0_examples)
  have a: "processar_hit ?rt (py ''tjpe'') (Some 738900) hit_antes = None"
    using date_filter_fail_open [of ?rt "py ''tjpe''" 738900 hit_antes] p0 by simp
  have b: "processar_hit ?rt (py ''tjpe'') (Some 738900) hit_igual =
       Some (montar_registro ?rt (py ''tjpe'') (get_source hit_igual))"
    using date_filter_fail_open [of ?rt "py ''tjpe''" 738900 hit_igual] p1 by blast
  have c: "processar_hit ?rt (py ''tjpe'') (Some 738900) hit_invalida =
       Some (montar_registro ?rt (py ''tjpe'') (get_source hit_invalida))"
    using date_filter_fail_open [of ?rt "py ''tjpe''" 738900 hit_invalida] p2 by blast
  have d: "processar_hit ?rt (py ''tjpe'') (Some 738900) hit_sem_data =
       Some (montar_registro ?rt (py ''tjpe'') (get_source hit_sem_data))"
    using date_filter_fail_open [of ?rt "py ''tjpe''" 738900 hit_sem_data] p3 p4 by blast
  have an: "data_anterior ?rt 738900 hit_antes" "\<not> data_anterior ?rt 738900 hit_igual"
    "\<not> data_anterior ?rt 738900 hit_invalida" "\<not> data_anterior ?rt 738900 hit_sem_data"
    using p0 p1 p2 p3 p4
    by (simp_all add: data_anterior_def get_dataDistribuicao_def parse_date_def)
  have e: "hits_loop ?rt (py ''tjpe'') (Some 738900)
         [hit_antes, hit_igual, hit_invalida, hit_sem_data] [] =
       map (\<lambda>p. montar_registro ?rt (py ''tjpe'') (get_source p))
         [hit_igual, hit_invalida, hit_sem_data]"
    using date_filter_fail_open [of ?rt "py ''tjpe''" 738900 hit_antes
        "[hit_antes, hit_igual, hit_invalida, hit_sem_data]" "[]"] an
    by simp
  from a b c d e show ?thesis by blast
qed

subsection \<open>Absent fields\<close>

lemma get_preencher:
  "get_descricao (preencher m) = get_descricao m" "get_dataHora (preencher m) = get_dataHora m"
  by (simp_all add: preencher_def get_descricao_def get_dataHora_def)

lemma prazos_loop_preencher:
  "prazos_loop rt (map preencher ms) acc = prazos_loop rt ms acc"
  by (induction ms arbitrary: acc) (simp_all add: get_preencher)

lemma resumo_loop_preencher: "resumo_loop rt (map preencher ms) = resumo_loop rt ms"
  by (induction ms) (simp_all add: get_preencher)

lemma fase_de_preencher: "fase_de rt (map preencher ms) = fase_de rt ms"
  by (simp add: fase_de_iff menciona_def get_preencher)

lemma montar_registro_preencher:
  "montar_registro rt trib (src \<lparr> movimentos := Some (map preencher movs) \<rparr>) =
   montar_registro rt trib (src \<lparr> movimentos := Some movs \<rparr>)"
  by (simp add: montar_registro_def get_movimentos_def Let_def prazos_loop_preencher
      resumo_de_def rev_map resumo_loop_preencher fase_de_preencher)

text \<open>
  On the documents of the contract, a source without a movement list is treated as one
  with the empty list: the row is built, with 0 movements, no deadlines, no decision
  summary and the execution mark \<open>Nao\<close>; this includes a hit without a source at all. A
  movement without description or timestamp is treated as one where they are the empty
  string. Without a date filter every hit yields its row.
\<close>

lemma missing_movements_are_empty:
  "(movimentos src = None \<longrightarrow>
      qtd_movimentos (montar_registro rt trib src) = 0
      \<and> prazos_relevantes (montar_registro rt trib src) = []
      \<and> resumo_decisao (montar_registro rt trib src) = []
      \<and> fase_execucao (montar_registro rt trib src) = Nao
      \<and> montar_registro rt trib src = montar_registro rt trib (src \<lparr> movimentos := Some [] \<rparr>))
   \<and> processar_hit rt trib None p = Some (montar_registro rt trib (get_source p))
   \<and> (hit_source p = None \<longrightarrow>
        processar_hit rt trib None p = Some (montar_registro rt trib empty_source)
        \<and> qtd_movimentos (montar_registro rt trib empty_source) = 0)
   \<and> montar_registro rt trib (src \<lparr> movimentos := Some movs \<rparr>) =
       montar_registro rt trib (src \<lparr> movimentos := Some (map preencher movs) \<rparr>)"
proof -
  have a: "movimentos src = None \<longrightarrow>
      qtd_movimentos (montar_registro rt trib src) = 0
      \<and> prazos_relevantes (montar_registro rt trib src) = []
      \<and> resumo_decisao (montar_registro rt trib src) = []
      \<and> fase_execucao (montar_registro rt trib src) = Nao
      \<and> montar_registro rt trib src = montar_registro rt trib (src \<lparr> movimentos := Some [] \<rparr>)"
    by (simp add: montar_registro_def get_movimentos_def Let_def resumo_de_def fase_de_def)
  have b: "processar_hit rt trib None p = Some (montar_registro rt trib (get_source p))"
    by (simp add: processar_hit_def Let_def)
  have c: "hit_source p = None \<longrightarrow>
        processar_hit rt trib None p = Some (montar_registro rt trib empty_source)
        \<and> qtd_movimentos (montar_registro rt trib empty_source) = 0"
    by (simp add: processar_hit_def Let_def get_source_def montar_registro_def
        get_movimentos_def empty_source_def)
  note d = montar_registro_preencher [where rt = rt and trib = trib and src = src
      and movs = movs, symmetric]
  from a b c d show ?thesis by blast
qed

lemma missing_movements_are_empty_witness:
  "montar_registro (rt0 no_transport) (py ''tjpe'') empty_source =
     \<lparr> cnj = None, tribunal = py ''TJPE'', grau = None, classe = None, assunto = [],
       orgao = None, status = None, partes = [], dt_distribuicao = None,
       qtd_movimentos = 0, prazos_relevantes = [], resumo_decisao = [],
       fase_execucao = Nao \<rparr>
   \<and> processar_hit (rt0 no_transport) (py ''tjpe'') None \<lparr> hit_source = None \<rparr> =
       Some (montar_registro (rt0 no_transport) (py ''tjpe'') empty_source)
   \<and> qtd_movimentos (montar_registro (rt0 no_transport) (py ''tjpe'') src_ex) = 6
   \<and> prazos_relevantes (montar_registro (rt0 no_transport) (py ''tjpe'')
        (src_ex \<lparr> movimentos := Some (map preencher movs_ex) \<rparr>)) =
       py ''t2: Prazo'' @ [10] @ py ''t4: Prazo''"
proof -
  let ?rt = "rt0 no_transport"
  note t = missing_movements_are_empty [where src = empty_source and rt = ?rt and trib = "py ''tjpe''"
      and p = "\<lparr> hit_source = None \<rparr>" and movs = "[]"]
  have n: "movimentos empty_source = None" by (simp add: empty_source_def)
  have rest: "cnj (montar_registro ?rt (py ''tjpe'') empty_source) = None"
    "tribunal (montar_registro ?rt (py ''tjpe'') empty_source) = py ''TJPE''"
    "grau (montar_registro ?rt (py ''tjpe'') empty_source) = None"
    "classe (montar_registro ?rt (py ''tjpe'') empty_source) = None"
    "assunto (montar_registro ?rt (py ''tjpe'') empty_source) = []"
    "orgao (montar_registro ?rt (py ''tjpe'') empty_source) = None"
    "status (montar_registro ?rt (py ''tjpe'') empty_source) = None"
    "partes (montar_registro ?rt (py ''tjpe'') empty_source) = []"
    "dt_distribuicao (montar_registro ?rt (py ''tjpe'') empty_source) = None"
    by (simp_all add: montar_registro_def Let_def empty_source_def rt0_def py_def upper_cp_def)
  from t n have q: "qtd_movimentos (montar_registro ?rt (py ''tjpe'') empty_source) = 0"
    "prazos_relevantes (montar_registro ?rt (py ''tjpe'') empty_source) = []"
    "resumo_decisao (montar_registro ?rt (py ''tjpe'') empty_source) = []"
    "fase_execucao (montar_registro ?rt (py ''tjpe'') empty_source) = Nao"
    by blast+
  from q rest have a: "montar_registro ?rt (py ''tjpe'') empty_source =
     \<lparr> cnj = None, tribunal = py ''TJPE'', grau = None, classe = None, assunto = [],
       orgao = None, status = None, partes = [], dt_distribuicao = None,
       qtd_movimentos = 0, prazos_relevantes = [], resumo_decisao = [],
       fase_execucao = Nao \<rparr>"
    by (intro registro.equality) simp_all
  have hs: "hit_source \<lparr> hit_source = None \<rparr> = None" by simp
  from t hs have b: "processar_hit ?rt (py ''tjpe'') None \<lparr> hit_source = None \<rparr> =
       Some (montar_registro ?rt (py ''tjpe'') empty_source)"
    by blast
  have c: "qtd_movimentos (montar_registro ?rt (py ''tjpe'') src_ex) = 6"
    by (simp add: montar_registro_def Let_def src_ex_def movs_ex_def get_movimentos_def)
  have s: "src_ex \<lparr> movimentos := Some movs_ex \<rparr> = src_ex" by (simp add: src_ex_def)
  have "prazos_relevantes (montar_registro ?rt (py ''tjpe'') src_ex) =
       py ''t2: Prazo'' @ [10] @ py ''t4: Prazo''"
    by (simp add: montar_registro_def Let_def prazos_loop_filter src_ex_def movs_ex_def
        eval_simps)
  with missing_movements_are_empty [where src = src_ex and rt = ?rt and trib = "py ''tjpe''"
      and p = "\<lparr> hit_source = None \<rparr>" and movs = movs_ex] s
  have d: "prazos_relevantes (montar_registro ?rt (py ''tjpe'')
        (src_ex \<lparr> movimentos := Some (map preencher movs_ex) \<rparr>)) =
       py ''t2: Prazo'' @ [10] @ py ''t4: Prazo''"
    by simp
  from a b c d show ?thesis by blast
qed

text \<open>
  The functions on the typed documents are the functions on JSON values, restricted to
  the documents of the contract: there no exception is possible, and the rows are the
  same.
\<close>

lemma dict_get_Nil: "dict_get (JObj []) k d = Inr d"
  by (simp add: dict_get_def)

lemma dict_get_campo:
  "dict_get (JObj (campo k enc v @ rest)) k' d =
     (if k = k' then (case v of None \<Rightarrow> dict_get (JObj rest) k' d | Some x \<Rightarrow> Inr (enc x))
      else dict_get (JObj rest) k' d)"
  by (simp add: dict_get_def campo_def split: option.splits)

lemma dict_get_campo1:
  "dict_get (JObj (campo k enc v)) k' d =
     (if k = k' then (case v of None \<Rightarrow> Inr d | Some x \<Rightarrow> Inr (enc x)) else Inr d)"
  by (simp add: dict_get_def campo_def split: option.splits)

lemma descricao_lower_mov:
  "descricao_lower rt (json_of_movimento m) = Inr (get_descricao m, str_lower rt (get_descricao m))"
  by (simp add: descricao_lower_def json_of_movimento_def dict_get_campo dict_get_campo1 sbind_def
      get_descricao_def py_def split: option.splits)

lemma dataHora_mov:
  "dict_get (json_of_movimento m) (py ''dataHora'') (JStr []) = Inr (JStr (get_dataHora m))"
  by (simp add: json_of_movimento_def dict_get_campo dict_get_campo1 get_dataHora_def py_def
      split: option.splits)

lemma prazo_de_mov:
  "prazo_de rt py_str (json_of_movimento m) =
     Inr (if any_keyword_in KEYWORDS_PRAZO (str_lower rt (get_descricao m))
          then Some (get_dataHora m @ py '': '' @ get_descricao m) else None)"
  by (simp add: prazo_de_def descricao_lower_mov dataHora_mov sbind_def py_format_def)

lemma prazos_loop_json_mov:
  "prazos_loop_json rt py_str (map json_of_movimento ms) acc = Inr (prazos_loop rt ms acc)"
  by (induction ms arbitrary: acc) (simp_all add: prazo_de_mov Let_def)

lemma resumo_loop_json_mov:
  "resumo_loop_json rt (map json_of_movimento ms) = Inr (resumo_loop rt ms)"
  by (induction ms) (simp_all add: decisao_de_def descricao_lower_mov sbind_def Let_def)

lemma fase_de_Cons:
  "fase_de rt (m # ms) =
     (any_keyword_in KEYWORDS_EXECUCAO (str_lower rt (get_descricao m)) \<or> fase_de rt ms)"
  by (auto simp add: fase_de_def any_keyword_in_def list_ex_iff)

lemma fase_loop_json_mov:
  "fase_loop_json rt (map json_of_movimento ms) = Inr (fase_de rt ms)"
proof (induction ms)
  case Nil
  show ?case by (simp add: fase_de_def)
next
  case (Cons m ms)
  then show ?case
    by (simp add: execucao_de_def descricao_lower_mov sbind_def fase_de_Cons split: bool.splits)
qed

lemma fmt_parte_json_parte: "fmt_parte_json py_str (json_of_parte p) = Inr (fmt_parte p)"
  by (simp add: fmt_parte_json_def json_of_parte_def dict_get_campo dict_get_campo1 sbind_def
      py_format_def fmt_parte_def py_def split: option.splits)

lemma partes_loop_json_map:
  "partes_loop_json py_str (map json_of_parte ps) = Inr (map fmt_parte ps)"
  by (induction ps) (simp_all add: fmt_parte_json_parte)

lemma str_items_map: "str_items (map JStr l) = Inr l"
  by (induction l) simp_all


lemma json_of_empty_source: "json_of_source empty_source = JObj []"
  by (simp add: json_of_source_def empty_source_def campo_def)

lemma get_source_json:
  "dict_get (json_of_hit p) (py ''_source'') (JObj []) = Inr (json_of_source (get_source p))"
  by (simp add: json_of_hit_def dict_get_campo1 get_source_def json_of_empty_source
      split: option.splits)

lemma source_gets:
  "dict_get (json_of_source src) (py ''numeroProcesso'') JNull = Inr (opt_json (numeroProcesso src))"
  "dict_get (json_of_source src) (py ''grau'') JNull = Inr (opt_json (src_grau src))"
  "dict_get (json_of_source src) (py ''classeProcessual'') JNull =
     Inr (opt_json (classeProcessual src))"
  "dict_get (json_of_source src) (py ''assuntosProcessuais'') (JArr []) =
     Inr (JArr (map JStr (case assuntosProcessuais src of None \<Rightarrow> [] | Some l \<Rightarrow> l)))"
  "dict_get (json_of_source src) (py ''orgaoJulgador'') (JObj []) =
     Inr (case orgaoJulgador src of None \<Rightarrow> JObj [] | Some oj \<Rightarrow> json_of_orgao oj)"
  "dict_get (json_of_source src) (py ''situacaoProcessual'') JNull =
     Inr (opt_json (situacaoProcessual src))"
  "dict_get (json_of_source src) (py ''partes'') (JArr []) =
     Inr (JArr (map json_of_parte (case src_partes src of None \<Rightarrow> [] | Some l \<Rightarrow> l)))"
  "dict_get (json_of_source src) (py ''dataDistribuicao'') (JStr []) =
     Inr (JStr (get_dataDistribuicao src))"
  "dict_get (json_of_source src) (py ''dataDistribuicao'') JNull =
     Inr (opt_json (dataDistribuicao src))"
  "dict_get (json_of_source src) (py ''movimentos'') (JArr []) =
     Inr (JArr (map json_of_movimento (get_movimentos src)))"
  by (simp_all add: json_of_source_def dict_get_campo dict_get_campo1 dict_get_Nil opt_json_def
      get_dataDistribuicao_def get_movimentos_def py_def split: option.splits)

lemma nomeOrgao_json:
  "dict_get (case oj of None \<Rightarrow> JObj [] | Some x \<Rightarrow> json_of_orgao x) (py ''nomeOrgao'') JNull =
     Inr (opt_json (case oj of None \<Rightarrow> None | Some x \<Rightarrow> nomeOrgao x))"
  by (simp add: json_of_orgao_def dict_get_campo1 dict_get_Nil opt_json_def split: option.splits)

lemma py_join_strs:
  "py_join sep (if py_truthy (JArr (map JStr l)) then JArr (map JStr l) else JArr []) =
     Inr (join sep l)"
  by (cases l) (simp_all add: py_join_def py_truthy_def py_iter_def sbind_def str_items_map)

lemma processar_hit_json_typed:
  "processar_hit_json rt py_str trib desde (json_of_hit p) =
     Inr (map_option json_of_registro (processar_hit rt trib desde p))"
proof -
  have "processar_hit_json rt py_str trib desde (json_of_hit p) =
     (if (case (desde, parse_date rt (get_dataDistribuicao (get_source p))) of
            (Some d, Some dd) \<Rightarrow> dd < d | _ \<Rightarrow> False)
      then Inr None
      else Inr (Some (json_of_registro (montar_registro rt trib (get_source p)))))"
    by (simp add: processar_hit_json_def get_source_json source_gets sbind_def
        parse_date_json_def py_iter_def py_reversed_def py_len_def prazos_loop_json_mov
        resumo_loop_json_mov fase_loop_json_mov partes_loop_json_map py_join_strs
        nomeOrgao_json json_of_registro_def montar_registro_def Let_def resumo_de_def
        rev_map split: option.splits)
  also have "\<dots> = Inr (map_option json_of_registro (processar_hit rt trib desde p))"
    by (simp add: processar_hit_def Let_def split: option.splits)
  finally show ?thesis .
qed

lemma hits_loop_json_typed:
  "hits_loop_json rt py_str trib desde (map json_of_hit ps) (map json_of_registro acc) =
     Inr (map json_of_registro (hits_loop rt trib desde ps acc))"
proof (induction ps arbitrary: acc)
  case Nil
  show ?case by simp
next
  case (Cons p ps)
  show ?case
  proof (cases "processar_hit rt trib desde p")
    case None
    then show ?thesis using Cons [of acc] by (simp add: processar_hit_json_typed)
  next
    case (Some r)
    then show ?thesis using Cons [of "acc @ [r]"] by (simp add: processar_hit_json_typed)
  qed
qed

lemma hits_loop_json_raises:
  "processar_hit_json rt py_str trib desde bad = Inl e \<Longrightarrow>
   hits_loop_json rt py_str trib desde (map json_of_hit ps @ bad # rest) acc = Inl e"
proof (induction ps arbitrary: acc)
  case Nil
  then show ?case by simp
next
  case (Cons p ps)
  then show ?case
    by (cases "processar_hit rt trib desde p") (simp_all add: processar_hit_json_typed)
qed

lemma json_row_of_empty_source:
  "json_of_registro (montar_registro rt trib empty_source) =
     \<lparr> j_cnj = JNull, j_tribunal = str_upper rt trib, j_grau = JNull, j_classe = JNull,
       j_assunto = [], j_orgao = JNull, j_status = JNull, j_partes = [],
       j_dt_distribuicao = JNull, j_qtd_movimentos = 0, j_prazos_relevantes = [],
       j_resumo_decisao = [], j_fase_execucao = Nao \<rparr>"
  by (simp add: json_of_registro_def montar_registro_def empty_source_def Let_def opt_json_def
      get_movimentos_def resumo_de_def fase_de_def)

lemma hit_partes_null_raises:
  "processar_hit_json rt py_str trib None hit_partes_null = Inl TypeError"
  by (simp add: hit_partes_null_def hit_com_def processar_hit_json_def sbind_def dict_get_def
      py_iter_def py_reversed_def py_len_def py_join_def py_truthy_def py_def)

lemma hit_orgao_null_raises:
  "processar_hit_json rt py_str trib None hit_orgao_null = Inl AttributeError"
  by (simp add: hit_orgao_null_def hit_com_def processar_hit_json_def sbind_def dict_get_def
      py_iter_def py_reversed_def py_len_def py_join_def py_truthy_def py_def)

lemma hit_movimentos_null_raises:
  "processar_hit_json rt py_str trib None hit_movimentos_null = Inl TypeError"
  by (simp add: hit_movimentos_null_def hit_com_def processar_hit_json_def sbind_def dict_get_def
      py_iter_def py_def)

lemma hit_descricao_null_raises:
  "processar_hit_json rt py_str trib None hit_descricao_null = Inl AttributeError"
  by (simp add: hit_descricao_null_def hit_com_def processar_hit_json_def sbind_def dict_get_def
      py_iter_def prazo_de_def descricao_lower_def py_def)

lemma hit_assuntos_null_row:
  "processar_hit_json rt py_str trib None hit_assuntos_null =
     Inr (Some (json_of_registro (montar_registro rt trib empty_source)))"
  by (simp add: json_row_of_empty_source hit_assuntos_null_def hit_com_def
      processar_hit_json_def sbind_def dict_get_def
      py_iter_def py_reversed_def py_len_def py_join_def py_truthy_def py_def)

lemma hit_sem_source_row:
  "processar_hit_json rt py_str trib None (JObj []) =
     Inr (Some (json_of_registro (montar_registro rt trib empty_source)))"
  by (simp add: json_row_of_empty_source
      processar_hit_json_def sbind_def dict_get_def
      py_iter_def py_reversed_def py_len_def py_join_def py_truthy_def py_def)

lemma absent_movements_json:
  "movimentos src = None \<Longrightarrow>
   processar_hit_json rt py_str trib None (json_of_hit \<lparr> hit_source = Some src \<rparr>) =
     Inr (Some (json_of_registro (montar_registro rt trib src)))
   \<and> j_qtd_movimentos (json_of_registro (montar_registro rt trib src)) = 0
   \<and> j_prazos_relevantes (json_of_registro (montar_registro rt trib src)) = []
   \<and> j_resumo_decisao (json_of_registro (montar_registro rt trib src)) = []
   \<and> j_fase_execucao (json_of_registro (montar_registro rt trib src)) = Nao"
  by (simp add: processar_hit_json_typed processar_hit_def Let_def get_source_def
      json_of_registro_def montar_registro_def get_movimentos_def resumo_de_def fase_de_def)

text \<open>
  C9. For every hit without a movement list, the row is built without an exception, with
  0 movements, no deadlines, no decision summary and the execution mark \<open>Nao\<close>: this is
  what the code does on the documents of the contract (\<open>absent_movements_json\<close>), and it
  is not what it does on every hit. A key that is present with the value \<open>null\<close> is not
  replaced by the default of \<open>dict.get\<close>, and only \<open>assuntosProcessuais\<close> is guarded
  against it (\<open>or []\<close>, line 239). So a hit without a movement list whose \<open>partes\<close> is
  \<open>null\<close> raises \<open>TypeError\<close> (lines 242 to 245), one whose \<open>orgaoJulgador\<close> is \<open>null\<close>
  raises \<open>AttributeError\<close> (line 240), a hit whose \<open>movimentos\<close> is \<open>null\<close> raises
  \<open>TypeError\<close> (line 215), and a movement whose \<open>descricao\<close> is \<open>null\<close> raises
  \<open>AttributeError\<close> (line 216). The exception ends the loop over the hits, whatever
  came before and whatever follows; nothing between there and the end of \<open>main\<close> catches
  it. With \<open>assuntosProcessuais\<close> \<open>null\<close>, and with no \<open>_source\<close> at all, the row of the
  empty source is built.
\<close>

theorem null_field_aborts_hit:
  "processar_hit_json rt py_str trib None hit_partes_null = Inl TypeError
   \<and> processar_hit_json rt py_str trib None hit_orgao_null = Inl AttributeError
   \<and> processar_hit_json rt py_str trib None hit_movimentos_null = Inl TypeError
   \<and> processar_hit_json rt py_str trib None hit_descricao_null = Inl AttributeError
   \<and> hits_loop_json rt py_str trib None (map json_of_hit ps @ hit_partes_null # rest) acc =
       Inl TypeError
   \<and> hits_loop_json rt py_str trib None (map json_of_hit ps @ hit_movimentos_null # rest) acc =
       Inl TypeError
   \<and> processar_hit_json rt py_str trib None hit_assuntos_null =
       Inr (Some (json_of_registro (montar_registro rt trib empty_source)))
   \<and> processar_hit_json rt py_str trib None (JObj []) =
       Inr (Some (json_of_registro (montar_registro rt trib empty_source)))
   \<and> j_qtd_movimentos (json_of_registro (montar_registro rt trib empty_source)) = 0"
  using hits_loop_json_raises [OF hit_partes_null_raises]
    hits_loop_json_raises [OF hit_movimentos_null_raises]
  by (simp add: hit_partes_null_raises hit_orgao_null_raises hit_movimentos_null_raises
      hit_descricao_null_raises hit_assuntos_null_row hit_sem_source_row
      json_row_of_empty_source)

subsection \<open>Transport failures\<close>

lemma consultados_simps:
  "consultados [] = []" "consultados [Consultando t] = [t]" "consultados [Encontrados n] = []"
  "consultados [WarnFalha t n] = []" "consultados [CreateSession] = []"
  "consultados [Total n] = []" "consultados [Post r] = []"
  by (simp_all add: consultados_def List.map_filter_simps)

lemma consultados_buscar_processos:
  "consultados (snd (buscar_processos rt nome cnpj trib N desde tr)) = consultados tr"
proof -
  obtain j where "buscar_processos rt nome cnpj trib N desde tr =
         (concat (map (\<lambda>p. registros_pagina rt trib desde (resposta rt nome cnpj trib tr p)) [0..<j]),
          trace_at nome cnpj trib tr j @
            (if 0 < j \<and> resposta rt nome cnpj trib tr (j - 1) = Falha
             then [WarnFalha (str_upper rt trib) j] else []))"
    using buscar_processos_char [of N rt nome cnpj trib tr desde] by blast
  then show ?thesis
    by (simp add: consultados_append consultados_trace_at consultados_simps)
qed

lemma tribunais_loop_consultados:
  "consultados (snd (tribunais_loop rt nome cnpj N desde ts dados tr)) =
     consultados tr @ map (anunciado rt) ts"
proof (induction ts arbitrary: dados tr)
  case Nil
  then show ?case by simp
next
  case (Cons t ts)
  let ?trib = "str_strip rt (str_lower rt t)"
  let ?tr1 = "tr @ [Consultando (str_upper rt ?trib)]"
  obtain enc tr2 where b: "buscar_processos rt nome cnpj ?trib N desde ?tr1 = (enc, tr2)"
    by (cases "buscar_processos rt nome cnpj ?trib N desde ?tr1")
  have "consultados tr2 = consultados ?tr1"
    using consultados_buscar_processos [of rt nome cnpj ?trib N desde ?tr1] b by simp
  then show ?case
    using b Cons.IH [of "dados @ enc" "tr2 @ [Encontrados (length enc)]"]
    by (simp add: Let_def consultados_append consultados_simps anunciado_def normalizar_def)
qed

lemma tribunais_loop_falha:
  assumes "0 < N"
    and "resposta rt nome cnpj (normalizar rt t) (tr @ [Consultando (anunciado rt t)]) 0 = Falha"
  shows "tribunais_loop rt nome cnpj N desde (t # ts) dados tr =
     tribunais_loop rt nome cnpj N desde ts dados
       (tr @ [Consultando (anunciado rt t),
              Post (search_request nome cnpj (normalizar rt t) 0),
              WarnFalha (anunciado rt t) 1,
              Encontrados 0])"
proof -
  have "buscar_processos rt nome cnpj (normalizar rt t) N desde
          (tr @ [Consultando (anunciado rt t)]) =
        ([], trace_at nome cnpj (normalizar rt t) (tr @ [Consultando (anunciado rt t)]) (Suc 0)
             @ [WarnFalha (str_upper rt (normalizar rt t)) (Suc 0)])"
    using buscar_processos_falha [of 0 rt nome cnpj "normalizar rt t"
        "tr @ [Consultando (anunciado rt t)]" N desde] assms
    by simp
  then show ?thesis
    by (simp add: Let_def anunciado_def normalizar_def trace_at_def)
qed

lemma main_configurado:
  assumes "determinar_desde rt a = Inr desde" and "configurado a"
  shows "main rt a =
     (let (dados, tr) =
            tribunais_loop rt (the (arg_nome a)) (the (arg_cnpj a)) (arg_max_paginas a) desde
              (arg_tribunais a) [] [CreateSession];
          dados' = (if dados \<noteq> [] then drop_duplicates dados else dados)
      in (Dados dados', tr @ [Total (length dados')]))"
proof -
  from assms(2) obtain nome cnpj t ts where
    "truthy (arg_nome a) = Some nome" "truthy (arg_cnpj a) = Some cnpj" "arg_tribunais a = t # ts"
    by (auto simp: configurado_def neq_Nil_conv)
  moreover from this have "arg_nome a = Some nome" "arg_cnpj a = Some cnpj"
    by (auto simp: truthy_def split: option.splits list.splits)
  ultimately show ?thesis
    using assms by (simp add: main_def executar_def configurado_def)
qed

lemma registros_pagina_filtradas:
  "registros_pagina rt trib desde r = linhas_filtradas rt trib desde r"
proof (cases r)
  case Falha
  then show ?thesis by (simp add: registros_pagina_def linhas_filtradas_def)
next
  case (Resposta data)
  have "List.map_filter (processar_hit rt trib desde) hs =
      map (\<lambda>p. montar_registro rt trib (get_source p))
        (filter (\<lambda>p. case desde of None \<Rightarrow> True | Some d \<Rightarrow> \<not> data_anterior rt d p) hs)" for hs
    by (induction hs)
       (auto simp: List.map_filter_simps processar_hit_def data_anterior_def Let_def
          split: option.splits)
  with Resposta show ?thesis by (simp add: registros_pagina_def linhas_filtradas_def)
qed

lemma resposta_sem_memoria:
  "sem_memoria rt f \<Longrightarrow> resposta rt nome cnpj trib tr p = f (search_request nome cnpj trib p)"
  by (simp add: sem_memoria_def resposta_def)

lemma buscar_processos_sem_memoria:
  assumes sm: "sem_memoria rt f"
  shows "fst (buscar_processos rt nome cnpj trib N desde tr) =
     concat (map (\<lambda>p. linhas_filtradas rt trib desde (f (search_request nome cnpj trib p)))
               [0..<paginas_consultadas f nome cnpj trib N])"
proof -
  let ?P = "\<lambda>p. encerra (f (search_request nome cnpj trib p))"
  obtain j where j: "j \<le> nat N"
    "\<forall>p. Suc p < j \<longrightarrow> \<not> ?P p"
    "j < nat N \<longrightarrow> 0 < j \<and> ?P (j - 1)"
    "buscar_processos rt nome cnpj trib N desde tr =
         (concat (map (\<lambda>p. registros_pagina rt trib desde (f (search_request nome cnpj trib p))) [0..<j]),
          trace_at nome cnpj trib tr j @
            (if 0 < j \<and> f (search_request nome cnpj trib (j - 1)) = Falha
             then [WarnFalha (str_upper rt trib) j] else []))"
    using buscar_processos_char [of N rt nome cnpj trib tr desde]
    unfolding resposta_sem_memoria [OF sm] by blast
  have "paginas_consultadas f nome cnpj trib N = j"
  proof (cases "find ?P [0..<nat N]")
    case None
    then have all: "\<forall>p < nat N. \<not> ?P p" by (auto simp: find_None_iff)
    have "\<not> j < nat N"
    proof
      assume lt: "j < nat N"
      with j(3) have "0 < j" "?P (j - 1)" by simp_all
      moreover from lt have "j - 1 < nat N" by simp
      ultimately show False using all by blast
    qed
    with j(1) None show ?thesis by (simp add: paginas_consultadas_def)
  next
    case (Some p)
    then have p: "p < nat N" "?P p" "\<forall>q < p. \<not> ?P q"
      by (auto simp: find_Some_iff)
    have "\<not> Suc p < j" using j(2) p(2) by blast
    moreover have "\<not> j < Suc p"
    proof
      assume lt: "j < Suc p"
      with p(1) have "j < nat N" by simp
      with j(3) have "0 < j" "?P (j - 1)" by simp_all
      moreover from lt \<open>0 < j\<close> have "j - 1 < p" by simp
      ultimately show False using p(3) by blast
    qed
    ultimately have "j = Suc p" by simp
    with Some show ?thesis by (simp add: paginas_consultadas_def)
  qed
  with j(4) show ?thesis by (simp add: registros_pagina_filtradas)
qed

lemma tribunais_loop_sem_memoria:
  assumes sm: "sem_memoria rt f"
  shows "fst (tribunais_loop rt nome cnpj N desde ts dados tr) =
     dados @ concat (map (linhas_tribunal rt f nome cnpj N desde) ts)"
proof (induction ts arbitrary: dados tr)
  case Nil
  then show ?case by simp
next
  case (Cons t ts)
  let ?trib = "str_strip rt (str_lower rt t)"
  let ?tr1 = "tr @ [Consultando (str_upper rt ?trib)]"
  obtain enc tr2 where b: "buscar_processos rt nome cnpj ?trib N desde ?tr1 = (enc, tr2)"
    by (cases "buscar_processos rt nome cnpj ?trib N desde ?tr1")
  have "enc = linhas_tribunal rt f nome cnpj N desde t"
    using buscar_processos_sem_memoria [OF sm, of nome cnpj ?trib N desde ?tr1] b
    by (simp add: linhas_tribunal_def normalizar_def)
  then show ?case
    using b Cons.IH [of "dados @ enc" "tr2 @ [Encontrados (length enc)]"]
    by (simp add: Let_def)
qed

lemma drop_duplicates_if:
  "(if dados \<noteq> [] then drop_duplicates dados else dados) = drop_duplicates dados"
  by (simp add: drop_duplicates_def)

lemma main_sem_memoria:
  assumes "sem_memoria rt f" and "determinar_desde rt a = Inr filtro" and "configurado a"
  shows "fst (main rt a) =
     Dados (drop_duplicates (concat (map
       (linhas_tribunal rt f (the (arg_nome a)) (the (arg_cnpj a)) (arg_max_paginas a) filtro)
       (arg_tribunais a))))"
proof -
  have "fst (main rt a) =
     Dados (drop_duplicates (fst (tribunais_loop rt (the (arg_nome a)) (the (arg_cnpj a))
       (arg_max_paginas a) filtro (arg_tribunais a) [] [CreateSession])))"
    unfolding main_configurado [OF assms(2,3)]
    by (simp only: Let_def split_beta drop_duplicates_if fst_conv)
  then show ?thesis
    by (simp add: tribunais_loop_sem_memoria [OF assms(1)])
qed

lemma tribunais_loop_dados:
  "tribunais_loop rt nome cnpj N desde ts dados tr =
     (dados @ fst (tribunais_loop rt nome cnpj N desde ts [] tr),
      snd (tribunais_loop rt nome cnpj N desde ts [] tr))"
proof (induction ts arbitrary: dados tr)
  case Nil
  then show ?case by simp
next
  case (Cons t ts)
  let ?trib = "str_strip rt (str_lower rt t)"
  let ?tr1 = "tr @ [Consultando (str_upper rt ?trib)]"
  obtain enc tr2 where b: "buscar_processos rt nome cnpj ?trib N desde ?tr1 = (enc, tr2)"
    by (cases "buscar_processos rt nome cnpj ?trib N desde ?tr1")
  show ?case
    using b Cons.IH [of "dados @ enc" "tr2 @ [Encontrados (length enc)]"]
      Cons.IH [of "enc" "tr2 @ [Encontrados (length enc)]"]
    by (simp add: Let_def)
qed

lemma tribunais_loop_snoc:
  "tribunais_loop rt nome cnpj N desde (ts @ [t]) dados tr =
     (let (d1, tr1) = tribunais_loop rt nome cnpj N desde ts dados tr;
          (enc, tr2) = buscar_processos rt nome cnpj (normalizar rt t) N desde
                         (tr1 @ [Consultando (anunciado rt t)])
      in (d1 @ enc, tr2 @ [Encontrados (length enc)]))"
proof (induction ts arbitrary: dados tr)
  case Nil
  then show ?case by (simp add: Let_def normalizar_def anunciado_def)
next
  case (Cons u us)
  let ?trib = "str_strip rt (str_lower rt u)"
  let ?tr1 = "tr @ [Consultando (str_upper rt ?trib)]"
  obtain enc tr2 where b: "buscar_processos rt nome cnpj ?trib N desde ?tr1 = (enc, tr2)"
    by (cases "buscar_processos rt nome cnpj ?trib N desde ?tr1")
  show ?case
    using b Cons.IH [of "dados @ enc" "tr2 @ [Encontrados (length enc)]"]
    by (simp add: Let_def)
qed

lemma tribunais_loop_linhas:
  "fst (tribunais_loop rt nome cnpj N desde ts dados tr) =
     dados @ concat (map (\<lambda>i. fst (buscar_processos rt nome cnpj (normalizar rt (ts ! i)) N desde
                                   (trace_tribunal rt nome cnpj N desde ts tr i)))
                      [0..<length ts])"
proof (induction ts arbitrary: dados rule: rev_induct)
  case Nil
  then show ?case by simp
next
  case (snoc t ts)
  have same: "map (\<lambda>i. fst (buscar_processos rt nome cnpj (normalizar rt ((ts @ [t]) ! i)) N desde
                      (trace_tribunal rt nome cnpj N desde (ts @ [t]) tr i))) [0..<length ts] =
      map (\<lambda>i. fst (buscar_processos rt nome cnpj (normalizar rt (ts ! i)) N desde
                      (trace_tribunal rt nome cnpj N desde ts tr i))) [0..<length ts]"
    by (rule map_cong) (simp_all add: trace_tribunal_def nth_append)
  have last: "trace_tribunal rt nome cnpj N desde (ts @ [t]) tr (length ts) =
      snd (tribunais_loop rt nome cnpj N desde ts [] tr) @ [Consultando (anunciado rt t)]"
    by (simp add: trace_tribunal_def)
  have sndd: "snd (tribunais_loop rt nome cnpj N desde ts dados tr) =
      snd (tribunais_loop rt nome cnpj N desde ts [] tr)"
    using tribunais_loop_dados [of rt nome cnpj N desde ts dados tr] by simp
  show ?case
    unfolding tribunais_loop_snoc
    using snoc.IH [of dados] sndd
    by (simp add: Let_def split_beta same last)
qed

lemma linhas_tribunal_falha:
  assumes "0 < N" and "f (search_request nome cnpj (normalizar rt t) 0) = Falha"
  shows "linhas_tribunal rt f nome cnpj N desde t = []"
proof -
  have "[0..<nat N] = 0 # [Suc 0..<nat N]" using assms(1) by (simp add: upt_conv_Cons)
  with assms(2) have "paginas_consultadas f nome cnpj (normalizar rt t) N = Suc 0"
    by (simp add: paginas_consultadas_def encerra_def)
  with assms(2) show ?thesis by (simp add: linhas_tribunal_def linhas_filtradas_def)
qed

lemma main_args_ex:
  "main (rt0 no_transport) args_ex =
     (Dados [],
      [CreateSession,
       Consultando (py ''TJPE''),
       Post (search_request (py ''LOCAR'') (py ''35474949000108'') (py ''tjpe'') 0),
       WarnFalha (py ''TJPE'') 1,
       Encontrados 0,
       Consultando (py ''TJBA''),
       Post (search_request (py ''LOCAR'') (py ''35474949000108'') (py ''tjba'') 0),
       WarnFalha (py ''TJBA'') 1,
       Encontrados 0,
       Total 0])"
  by (simp add: main_def executar_def determinar_desde_def truthy_def args_ex_def
      buscar_processos_def upt_conv_Cons no_transport_def rt0_def py_def lower_cp_def
      upper_cp_def strip0_def is_space_def Let_def)

text \<open>
  C6. When the pages before page \<open>k\<close> did not end the query and the transport fails on
  page \<open>k\<close>, the query of that tribunal returns exactly the rows of the pages before
  \<open>k\<close>, after a warning; a failure on the first page gives no rows. The loop over the
  tribunals announces and queries every tribunal of the list whatever the transport does,
  and its rows are the rows collected before followed by what the query of each tribunal
  returned, in the order of the list: a failure in one tribunal takes nothing from the
  others. For a transport without memory these are the rows of the pages each tribunal
  was asked for, none for a tribunal that fails on its first page, and a configured run
  ends with exactly these rows, deduplicated, not with an exit or an exception.
\<close>

theorem transport_failure_is_local:
  "((\<forall>p<k. \<not> encerra (resposta rt nome cnpj trib tr p)) \<and> k < nat N
      \<and> resposta rt nome cnpj trib tr k = Falha \<longrightarrow>
      buscar_processos rt nome cnpj trib N desde tr =
        (concat (map (\<lambda>p. registros_pagina rt trib desde (resposta rt nome cnpj trib tr p)) [0..<k]),
         trace_at nome cnpj trib tr (Suc k) @ [WarnFalha (str_upper rt trib) (Suc k)]))
   \<and> (0 < N \<and> resposta rt nome cnpj trib tr 0 = Falha \<longrightarrow>
        fst (buscar_processos rt nome cnpj trib N desde tr) = [])
   \<and> consultados (snd (tribunais_loop rt nome cnpj N desde ts dados tr)) =
        consultados tr @ map (anunciado rt) ts
   \<and> (0 < N \<and> resposta rt nome cnpj (normalizar rt t) (tr @ [Consultando (anunciado rt t)]) 0 = Falha
        \<longrightarrow> tribunais_loop rt nome cnpj N desde (t # ts) dados tr =
             tribunais_loop rt nome cnpj N desde ts dados
               (tr @ [Consultando (anunciado rt t),
                      Post (search_request nome cnpj (normalizar rt t) 0),
                      WarnFalha (anunciado rt t) 1,
                      Encontrados 0]))
   \<and> (determinar_desde rt a = Inr filtro \<and> configurado a \<longrightarrow>
        (\<exists>dados. fst (main rt a) = Dados dados)
        \<and> consultados (snd (main rt a)) = map (anunciado rt) (arg_tribunais a))
   \<and> fst (tribunais_loop rt nome cnpj N desde ts dados tr) =
        dados @ concat (map (\<lambda>i. fst (buscar_processos rt nome cnpj (normalizar rt (ts ! i)) N
                                     desde (trace_tribunal rt nome cnpj N desde ts tr i)))
                         [0..<length ts])
   \<and> (sem_memoria rt f \<longrightarrow>
        fst (tribunais_loop rt nome cnpj N desde ts dados tr) =
          dados @ concat (map (linhas_tribunal rt f nome cnpj N desde) ts))
   \<and> (0 < N \<and> f (search_request nome cnpj (normalizar rt t) 0) = Falha \<longrightarrow>
        linhas_tribunal rt f nome cnpj N desde t = [])
   \<and> (sem_memoria rt f \<and> determinar_desde rt a = Inr filtro \<and> configurado a \<longrightarrow>
        fst (main rt a) =
          Dados (drop_duplicates (concat (map
            (linhas_tribunal rt f (the (arg_nome a)) (the (arg_cnpj a)) (arg_max_paginas a) filtro)
            (arg_tribunais a)))))"
proof -
  have first: "0 < N \<and> resposta rt nome cnpj trib tr 0 = Falha \<longrightarrow>
        fst (buscar_processos rt nome cnpj trib N desde tr) = []"
    using buscar_processos_falha [of 0 rt nome cnpj trib tr N desde] by simp
  have run: "(\<exists>dados. fst (main rt a) = Dados dados)
        \<and> consultados (snd (main rt a)) = map (anunciado rt) (arg_tribunais a)"
    if "determinar_desde rt a = Inr filtro" "configurado a"
    using tribunais_loop_consultados [of rt "the (arg_nome a)" "the (arg_cnpj a)"
        "arg_max_paginas a" filtro "arg_tribunais a" "[]" "[CreateSession]"]
    by (simp add: main_configurado [OF that] Let_def split_beta consultados_append
        consultados_simps)
  show ?thesis
    using buscar_processos_falha [of k rt nome cnpj trib tr N desde] first
      tribunais_loop_consultados [of rt nome cnpj N desde ts dados tr]
      tribunais_loop_falha [of N rt nome cnpj t tr desde ts dados] run
      tribunais_loop_linhas [of rt nome cnpj N desde ts dados tr]
      tribunais_loop_sem_memoria [of rt f nome cnpj N desde ts dados tr]
      linhas_tribunal_falha [of N f nome cnpj rt t desde]
      main_sem_memoria [of rt f a filtro]
    by blast
qed

lemma linhas_tribunal_so_tjba:
  "linhas_tribunal (rt0 (\<lambda>tr. so_tjba)) so_tjba (py ''LOCAR'') (py ''35474949000108'') 25 None
     (py ''TJPE '') = []"
  "linhas_tribunal (rt0 (\<lambda>tr. so_tjba)) so_tjba (py ''LOCAR'') (py ''35474949000108'') 25 None
     (py ''tjba'') =
     [reg_tjba (py ''0001'') (py ''G1''), reg_tjba (py ''0002'') (py ''G1''),
      reg_tjba (py ''0001'') (py ''G2'')]"
proof -
  let ?rt = "rt0 (\<lambda>tr. so_tjba)"
  have n: "normalizar ?rt (py ''TJPE '') = py ''tjpe''" "normalizar ?rt (py ''tjba'') = py ''tjba''"
    by (simp_all add: normalizar_def rt0_def py_def lower_cp_def strip0_def is_space_def)
  have e: "endpoint (search_request nome cnpj trib p) = BASE_URL @ trib @ py ''/_search''"
    "body_from (search_request nome cnpj trib p) = p * page_size" for nome cnpj trib p
    by (simp_all add: search_request_def)
  have d: "py ''tjpe'' \<noteq> py ''tjba''" by (simp add: py_def)
  have f1: "so_tjba (search_request nome cnpj (py ''tjpe'') p) = Falha" for nome cnpj p
    using d by (simp add: so_tjba_def e py_def)
  have f2: "so_tjba (search_request nome cnpj (py ''tjba'') 0) =
      pagina_unica [] (search_request nome cnpj (py ''tjba'') 0)" for nome cnpj
    by (simp add: so_tjba_def e)
  have u: "[0..<nat 25] = 0 # [Suc 0..<25]" "[0..<25] = 0 # [Suc 0..<25]"
    by (simp_all add: upt_conv_Cons)
  have p1: "paginas_consultadas so_tjba nome cnpj (py ''tjpe'') 25 = Suc 0" for nome cnpj
    by (simp add: paginas_consultadas_def u f1 encerra_def)
  have p2: "paginas_consultadas so_tjba nome cnpj (py ''tjba'') 25 = Suc 0" for nome cnpj
    by (simp add: paginas_consultadas_def u f2 encerra_def pagina_unica_def e get_hits_def
        page_size_def)
  show "linhas_tribunal ?rt so_tjba (py ''LOCAR'') (py ''35474949000108'') 25 None (py ''TJPE '') = []"
    by (simp add: linhas_tribunal_def n p1 f1 linhas_filtradas_def)
  show "linhas_tribunal ?rt so_tjba (py ''LOCAR'') (py ''35474949000108'') 25 None (py ''tjba'') =
     [reg_tjba (py ''0001'') (py ''G1''), reg_tjba (py ''0002'') (py ''G1''),
      reg_tjba (py ''0001'') (py ''G2'')]"
    by (simp add: linhas_tribunal_def n p2 f2 linhas_filtradas_def pagina_unica_def e
        get_hits_def get_source_def reg_tjba_def)
qed

lemma chave_reg_tjba: "chave (reg_tjba numero g) = (Some numero, py ''TJBA'')"
  by (simp add: reg_tjba_def chave_def montar_registro_def Let_def src_de_def empty_source_def
      rt0_def py_def upper_cp_def)

theorem transport_failure_is_local_witness:
  "buscar_processos (rt0 falha_na_segunda) (py ''LOCAR'') (py ''35474949000108'') (py ''tjpe'')
       25 None [] =
     (registros_pagina (rt0 falha_na_segunda) (py ''tjpe'') None
        (full_pages [] (search_request (py ''LOCAR'') (py ''35474949000108'') (py ''tjpe'') 0)),
      [Post (search_request (py ''LOCAR'') (py ''35474949000108'') (py ''tjpe'') 0),
       Post (search_request (py ''LOCAR'') (py ''35474949000108'') (py ''tjpe'') 1),
       WarnFalha (py ''TJPE'') 2])
   \<and> fst (buscar_processos (rt0 no_transport) (py ''LOCAR'') (py ''35474949000108'')
         (py ''tjpe'') 25 None []) = []
   \<and> fst (main (rt0 no_transport) args_ex) = Dados []
   \<and> consultados (snd (main (rt0 no_transport) args_ex)) = [py ''TJPE'', py ''TJBA'']
   \<and> tribunais_loop (rt0 no_transport) (py ''LOCAR'') (py ''35474949000108'') 25 None
         [py ''TJPE ''] [] [] =
       ([], [Consultando (py ''TJPE''),
             Post (search_request (py ''LOCAR'') (py ''35474949000108'') (py ''tjpe'') 0),
             WarnFalha (py ''TJPE'') 1,
             Encontrados 0])
   \<and> fst (tribunais_loop (rt0 (\<lambda>tr. so_tjba)) (py ''LOCAR'') (py ''35474949000108'') 25 None
         [py ''TJPE '', py ''tjba''] [] [CreateSession]) =
       [reg_tjba (py ''0001'') (py ''G1''), reg_tjba (py ''0002'') (py ''G1''),
        reg_tjba (py ''0001'') (py ''G2'')]
   \<and> fst (main (rt0 (\<lambda>tr. so_tjba)) args_ex) =
       Dados [reg_tjba (py ''0001'') (py ''G1''), reg_tjba (py ''0002'') (py ''G1'')]"
proof -
  let ?nome = "py ''LOCAR''" and ?cnpj = "py ''35474949000108''" and ?trib = "py ''tjpe''"
  note t1 = transport_failure_is_local [where k = 1 and rt = "rt0 falha_na_segunda" and nome = ?nome
      and cnpj = ?cnpj and trib = ?trib and tr = "[]" and N = 25 and desde = None
      and ts = "[]" and dados = "[]" and t = "[]" and a = args_ex and filtro = None and f = so_tjba]
  note t2 = transport_failure_is_local [where k = 0 and rt = "rt0 no_transport" and nome = ?nome
      and cnpj = ?cnpj and trib = ?trib and tr = "[]" and N = 25 and desde = None
      and ts = "[]" and dados = "[]" and t = "py ''TJPE ''" and a = args_ex and filtro = None and f = so_tjba]
  have r0: "resposta (rt0 falha_na_segunda) ?nome ?cnpj ?trib [] 0 =
      full_pages [] (search_request ?nome ?cnpj ?trib 0)"
    by (simp add: resposta_def rt0_def falha_na_segunda_def search_request_def trace_at_def
        full_pages_def)
  have r1: "resposta (rt0 falha_na_segunda) ?nome ?cnpj ?trib [] 1 = Falha"
    by (simp add: resposta_def rt0_def falha_na_segunda_def search_request_def page_size_def)
  have e0: "\<forall>p<1. \<not> encerra (resposta (rt0 falha_na_segunda) ?nome ?cnpj ?trib [] p)"
    by (simp add: r0 encerra_def full_pages_def get_hits_def page_size_def)
  have up: "str_upper (rt0 falha_na_segunda) ?trib = py ''TJPE''"
    by (simp add: rt0_def py_def upper_cp_def)
  from t1 e0 r1 have
    "buscar_processos (rt0 falha_na_segunda) ?nome ?cnpj ?trib 25 None [] =
        (concat (map (\<lambda>p. registros_pagina (rt0 falha_na_segunda) ?trib None
                   (resposta (rt0 falha_na_segunda) ?nome ?cnpj ?trib [] p)) [0..<1]),
         trace_at ?nome ?cnpj ?trib [] (Suc 1) @
           [WarnFalha (str_upper (rt0 falha_na_segunda) ?trib) (Suc 1)])"
    by simp
  then have a: "buscar_processos (rt0 falha_na_segunda) ?nome ?cnpj ?trib 25 None [] =
     (registros_pagina (rt0 falha_na_segunda) ?trib None
        (full_pages [] (search_request ?nome ?cnpj ?trib 0)),
      [Post (search_request ?nome ?cnpj ?trib 0), Post (search_request ?nome ?cnpj ?trib 1),
       WarnFalha (py ''TJPE'') 2])"
    by (simp add: r0 up trace_at_def upt_conv_Cons)
  have f0: "resposta (rt0 no_transport) ?nome ?cnpj ?trib [] 0 = Falha"
    by (simp add: resposta_def rt0_def no_transport_def)
  from t2 f0 have b: "fst (buscar_processos (rt0 no_transport) ?nome ?cnpj ?trib 25 None []) = []"
    by simp
  have d: "determinar_desde (rt0 no_transport) args_ex = Inr None"
    by (simp add: determinar_desde_def args_ex_def)
  have c: "configurado args_ex"
    by (simp add: configurado_def args_ex_def truthy_def py_def)
  have n: "map (anunciado (rt0 no_transport)) (arg_tribunais args_ex) = [py ''TJPE'', py ''TJBA'']"
    by (simp add: anunciado_def normalizar_def args_ex_def rt0_def py_def lower_cp_def
        upper_cp_def strip0_def is_space_def)
  from t2 d c n have e: "consultados (snd (main (rt0 no_transport) args_ex)) =
      [py ''TJPE'', py ''TJBA'']"
    by simp
  have m: "fst (main (rt0 no_transport) args_ex) = Dados []"
    by (simp add: main_args_ex)
  have nt: "normalizar (rt0 no_transport) (py ''TJPE '') = py ''tjpe''"
    "anunciado (rt0 no_transport) (py ''TJPE '') = py ''TJPE''"
    by (simp_all add: anunciado_def normalizar_def rt0_def py_def lower_cp_def upper_cp_def
        strip0_def is_space_def)
  have ft: "resposta (rt0 no_transport) ?nome ?cnpj (normalizar (rt0 no_transport) (py ''TJPE ''))
      ([] @ [Consultando (anunciado (rt0 no_transport) (py ''TJPE ''))]) 0 = Falha"
    by (simp add: resposta_def rt0_def no_transport_def)
  from t2 ft have "tribunais_loop (rt0 no_transport) ?nome ?cnpj 25 None [py ''TJPE ''] [] [] =
      tribunais_loop (rt0 no_transport) ?nome ?cnpj 25 None [] []
        ([] @ [Consultando (anunciado (rt0 no_transport) (py ''TJPE '')),
               Post (search_request ?nome ?cnpj (normalizar (rt0 no_transport) (py ''TJPE '')) 0),
               WarnFalha (anunciado (rt0 no_transport) (py ''TJPE '')) 1,
               Encontrados 0])"
    by simp
  then have l: "tribunais_loop (rt0 no_transport) ?nome ?cnpj 25 None [py ''TJPE ''] [] [] =
       ([], [Consultando (py ''TJPE''), Post (search_request ?nome ?cnpj (py ''tjpe'') 0),
             WarnFalha (py ''TJPE'') 1, Encontrados 0])"
    by (simp add: nt)
  let ?rs = "rt0 (\<lambda>tr. so_tjba)"
  note t3 = transport_failure_is_local [where k = 0 and rt = ?rs and nome = ?nome
      and cnpj = ?cnpj and trib = ?trib and tr = "[CreateSession]" and N = 25 and desde = None
      and ts = "[py ''TJPE '', py ''tjba'']" and dados = "[]" and t = "py ''TJPE ''"
      and a = args_ex and filtro = None and f = so_tjba]
  have sm: "sem_memoria ?rs so_tjba" by (simp add: sem_memoria_def rt0_def)
  have cfg: "determinar_desde ?rs args_ex = Inr None" "configurado args_ex"
    "the (arg_nome args_ex) = ?nome" "the (arg_cnpj args_ex) = ?cnpj"
    "arg_max_paginas args_ex = 25" "arg_tribunais args_ex = [py ''TJPE '', py ''tjba'']"
    by (simp_all add: determinar_desde_def configurado_def args_ex_def truthy_def py_def)
  from t3 sm have "fst (tribunais_loop ?rs ?nome ?cnpj 25 None [py ''TJPE '', py ''tjba''] []
        [CreateSession]) =
      [] @ concat (map (linhas_tribunal ?rs so_tjba ?nome ?cnpj 25 None)
        [py ''TJPE '', py ''tjba''])"
    by blast
  then have g: "fst (tribunais_loop ?rs ?nome ?cnpj 25 None [py ''TJPE '', py ''tjba''] []
        [CreateSession]) =
       [reg_tjba (py ''0001'') (py ''G1''), reg_tjba (py ''0002'') (py ''G1''),
        reg_tjba (py ''0001'') (py ''G2'')]"
    by (simp add: linhas_tribunal_so_tjba)
  have dd: "drop_duplicates [reg_tjba (py ''0001'') (py ''G1''), reg_tjba (py ''0002'') (py ''G1''),
        reg_tjba (py ''0001'') (py ''G2'')] =
      [reg_tjba (py ''0001'') (py ''G1''), reg_tjba (py ''0002'') (py ''G1'')]"
    by (simp add: drop_duplicates_def chave_reg_tjba py_def)
  from t3 sm cfg(1,2) have "fst (main ?rs args_ex) =
      Dados (drop_duplicates (concat (map
        (linhas_tribunal ?rs so_tjba (the (arg_nome args_ex)) (the (arg_cnpj args_ex))
           (arg_max_paginas args_ex) None) (arg_tribunais args_ex))))"
    by blast
  then have h: "fst (main ?rs args_ex) =
       Dados [reg_tjba (py ''0001'') (py ''G1''), reg_tjba (py ''0002'') (py ''G1'')]"
    by (simp add: cfg linhas_tribunal_so_tjba dd)
  from a b m e l g h show ?thesis by blast
qed

subsection \<open>Deduplication\<close>

lemma unmarked_Cons:
  "map fst (filter (\<lambda>(r, dup). \<not> dup) (zip (r # rs) (duplicated seen (r # rs)))) =
     (if chave r \<in> set seen then [] else [r]) @
     map fst (filter (\<lambda>(r, dup). \<not> dup) (zip rs (duplicated (chave r # seen) rs)))"
  by simp

lemma unmarked_nths:
  "map fst (filter (\<lambda>(r, dup). \<not> dup) (zip rs (duplicated seen rs))) =
     nths rs {i. i < length rs \<and> chave (rs ! i) \<notin> set seen
                 \<and> (\<forall>j<i. chave (rs ! j) \<noteq> chave (rs ! i))}"
proof (induction rs arbitrary: seen)
  case Nil
  then show ?case by simp
next
  case (Cons r rs)
  let ?A = "{i. i < length (r # rs) \<and> chave ((r # rs) ! i) \<notin> set seen
                 \<and> (\<forall>j<i. chave ((r # rs) ! j) \<noteq> chave ((r # rs) ! i))}"
  have zero: "0 \<in> ?A \<longleftrightarrow> chave r \<notin> set seen" by simp
  have shift: "{j. Suc j \<in> ?A} =
      {i. i < length rs \<and> chave (rs ! i) \<notin> set (chave r # seen)
                 \<and> (\<forall>j<i. chave (rs ! j) \<noteq> chave (rs ! i))}"
    by (auto simp: less_Suc_eq_0_disj)
  show ?case
    unfolding unmarked_Cons Cons.IH nths_Cons zero shift by simp
qed

lemma drop_duplicates_nths: "drop_duplicates rs = nths rs (primeiras rs)"
  using unmarked_nths [of rs "[]"] by (simp add: drop_duplicates_def primeiras_def)

lemma unmarked_keys:
  "set (map chave (map fst (filter (\<lambda>(r, dup). \<not> dup) (zip rs (duplicated seen rs))))) =
     set (map chave rs) - set seen"
proof (induction rs arbitrary: seen)
  case Nil
  then show ?case by simp
next
  case (Cons r rs)
  show ?case unfolding unmarked_Cons using Cons.IH [of "chave r # seen"] by auto
qed

lemma unmarked_distinct:
  "distinct (map chave (map fst (filter (\<lambda>(r, dup). \<not> dup) (zip rs (duplicated seen rs)))))"
proof (induction rs arbitrary: seen)
  case Nil
  then show ?case by simp
next
  case (Cons r rs)
  show ?case
    unfolding unmarked_Cons
    using Cons.IH [of "chave r # seen"] unmarked_keys [of rs "chave r # seen"] by auto
qed

lemma unmarked_first:
  "x \<in> set (map fst (filter (\<lambda>(r, dup). \<not> dup) (zip rs (duplicated seen rs)))) \<Longrightarrow>
     find (\<lambda>y. chave y = chave x) rs = Some x"
proof (induction rs arbitrary: seen)
  case Nil
  then show ?case by simp
next
  case (Cons r rs)
  from Cons.prems have "x = r \<and> chave r \<notin> set seen
      \<or> x \<in> set (map fst (filter (\<lambda>(r, dup). \<not> dup) (zip rs (duplicated (chave r # seen) rs))))"
    unfolding unmarked_Cons by (auto split: if_splits)
  then show ?case
  proof
    assume "x = r \<and> chave r \<notin> set seen"
    then show ?thesis by simp
  next
    assume in_rest: "x \<in> set (map fst (filter (\<lambda>(r, dup). \<not> dup)
        (zip rs (duplicated (chave r # seen) rs))))"
    then have "chave x \<in> set (map chave rs) - set (chave r # seen)"
      using unmarked_keys [of rs "chave r # seen"] by (metis imageI set_map)
    then have "chave r \<noteq> chave x" by auto
    with Cons.IH [OF in_rest] show ?thesis by simp
  qed
qed

lemma drop_duplicates_props:
  "distinct (map chave (drop_duplicates rs))"
  "set (map chave (drop_duplicates rs)) = set (map chave rs)"
  "x \<in> set (drop_duplicates rs) \<Longrightarrow> find (\<lambda>y. chave y = chave x) rs = Some x"
  using unmarked_distinct [of rs "[]"] unmarked_keys [of rs "[]"] unmarked_first [of x rs "[]"]
  by (simp_all add: drop_duplicates_def)

lemma drop_duplicates_subseq: "subseq (drop_duplicates rs) rs"
  unfolding drop_duplicates_nths subseq_conv_nths by blast

lemma chaves_gerar_dados_teste: "distinct (map chave gerar_dados_teste)"
  by (simp add: gerar_dados_teste_def chave_def py_def)

lemma determinar_desde_Inl:
  assumes "determinar_desde rt a = Inl ended"
  shows "fst ended \<noteq> Dados out"
proof (cases "arg_desde a")
  case None
  with assms show ?thesis
    by (cases "arg_since_days a")
       (auto simp: determinar_desde_def split: if_splits sum.splits)
next
  case (Some s)
  show ?thesis
  proof (cases s)
    case Nil
    with Some assms show ?thesis
      by (cases "arg_since_days a")
         (auto simp: determinar_desde_def split: if_splits sum.splits)
  next
    case (Cons c cs)
    with Some assms show ?thesis
      by (cases "date_fromisoformat rt (c # cs)") (auto simp: determinar_desde_def)
  qed
qed

lemma main_Dados:
  assumes "fst (main rt a) = Dados out"
  shows "\<exists>filtro. determinar_desde rt a = Inr filtro \<and> fst (executar rt a filtro) = Dados out"
proof (cases "determinar_desde rt a")
  case (Inl ended)
  with assms determinar_desde_Inl [OF Inl, of out] show ?thesis by (simp add: main_def)
next
  case (Inr filtro)
  with assms show ?thesis by (simp add: main_def)
qed

text \<open>
  C7. The rows a run ends with have pairwise different keys (cnj, tribunal). In a
  collecting run they are the rows at the first-occurrence positions of the concatenated
  per-tribunal results, in the order they have there: a subsequence with the same set of
  keys, in which every row is the first one of its key.
\<close>

theorem deduplication_stable:
  "(fst (main rt a) = Dados out \<longrightarrow> distinct (map chave out))
   \<and> (fst (main rt a) = Dados out \<and> \<not> arg_selftest a \<longrightarrow>
        (\<exists>nome cnpj filtro raw.
            truthy (arg_nome a) = Some nome \<and> truthy (arg_cnpj a) = Some cnpj
          \<and> determinar_desde rt a = Inr filtro
          \<and> raw = fst (tribunais_loop rt nome cnpj (arg_max_paginas a) filtro
                         (arg_tribunais a) [] [CreateSession])
          \<and> out = nths raw (primeiras raw)
          \<and> subseq out raw
          \<and> set (map chave out) = set (map chave raw)
          \<and> (\<forall>r \<in> set out. find (\<lambda>y. chave y = chave r) raw = Some r)))"
proof -
  have coletado: "\<exists>nome cnpj filtro raw.
            truthy (arg_nome a) = Some nome \<and> truthy (arg_cnpj a) = Some cnpj
          \<and> determinar_desde rt a = Inr filtro
          \<and> raw = fst (tribunais_loop rt nome cnpj (arg_max_paginas a) filtro
                         (arg_tribunais a) [] [CreateSession])
          \<and> out = (if raw \<noteq> [] then drop_duplicates raw else raw)"
    if d: "fst (main rt a) = Dados out" and ns: "\<not> arg_selftest a"
  proof -
    from main_Dados [OF d] obtain filtro where f: "determinar_desde rt a = Inr filtro"
      and e: "fst (executar rt a filtro) = Dados out" by blast
    with ns obtain nome cnpj t ts where c: "truthy (arg_nome a) = Some nome"
      "truthy (arg_cnpj a) = Some cnpj" "arg_tribunais a = t # ts"
      by (auto simp: executar_def split: option.splits list.splits)
    with e ns have "out =
       (if fst (tribunais_loop rt nome cnpj (arg_max_paginas a) filtro (arg_tribunais a) []
             [CreateSession]) \<noteq> []
        then drop_duplicates (fst (tribunais_loop rt nome cnpj (arg_max_paginas a) filtro
             (arg_tribunais a) [] [CreateSession]))
        else fst (tribunais_loop rt nome cnpj (arg_max_paginas a) filtro (arg_tribunais a) []
             [CreateSession]))"
      by (simp add: executar_def Let_def split_beta split: if_splits)
    with c f show ?thesis by blast
  qed
  have dedup: "(if raw \<noteq> [] then drop_duplicates raw else raw) = drop_duplicates raw" for raw
    by (simp add: drop_duplicates_def)
  have two: "fst (main rt a) = Dados out \<and> \<not> arg_selftest a \<longrightarrow>
        (\<exists>nome cnpj filtro raw.
            truthy (arg_nome a) = Some nome \<and> truthy (arg_cnpj a) = Some cnpj
          \<and> determinar_desde rt a = Inr filtro
          \<and> raw = fst (tribunais_loop rt nome cnpj (arg_max_paginas a) filtro
                         (arg_tribunais a) [] [CreateSession])
          \<and> out = nths raw (primeiras raw)
          \<and> subseq out raw
          \<and> set (map chave out) = set (map chave raw)
          \<and> (\<forall>r \<in> set out. find (\<lambda>y. chave y = chave r) raw = Some r))"
  proof
    assume h: "fst (main rt a) = Dados out \<and> \<not> arg_selftest a"
    from coletado [of ] h obtain nome cnpj filtro raw where
      c: "truthy (arg_nome a) = Some nome" "truthy (arg_cnpj a) = Some cnpj"
        "determinar_desde rt a = Inr filtro"
        "raw = fst (tribunais_loop rt nome cnpj (arg_max_paginas a) filtro
                         (arg_tribunais a) [] [CreateSession])"
      and o: "out = drop_duplicates raw"
      unfolding dedup by blast
    have "out = nths raw (primeiras raw)" using o by (simp add: drop_duplicates_nths)
    moreover have "subseq out raw" using o by (simp add: drop_duplicates_subseq)
    moreover have "set (map chave out) = set (map chave raw)"
      using o drop_duplicates_props(2) by simp
    moreover have "\<forall>r \<in> set out. find (\<lambda>y. chave y = chave r) raw = Some r"
      using o drop_duplicates_props(3) by simp
    ultimately show "\<exists>nome cnpj filtro raw.
            truthy (arg_nome a) = Some nome \<and> truthy (arg_cnpj a) = Some cnpj
          \<and> determinar_desde rt a = Inr filtro
          \<and> raw = fst (tribunais_loop rt nome cnpj (arg_max_paginas a) filtro
                         (arg_tribunais a) [] [CreateSession])
          \<and> out = nths raw (primeiras raw)
          \<and> subseq out raw
          \<and> set (map chave out) = set (map chave raw)
          \<and> (\<forall>r \<in> set out. find (\<lambda>y. chave y = chave r) raw = Some r)"
      using c by blast
  qed
  have one: "fst (main rt a) = Dados out \<longrightarrow> distinct (map chave out)"
  proof
    assume d: "fst (main rt a) = Dados out"
    show "distinct (map chave out)"
    proof (cases "arg_selftest a")
      case True
      from main_Dados [OF d] obtain filtro where "fst (executar rt a filtro) = Dados out"
        by blast
      with True have "out = gerar_dados_teste" by (simp add: executar_def)
      then show ?thesis by (simp add: chaves_gerar_dados_teste)
    next
      case False
      with d coletado obtain raw where "out = drop_duplicates raw"
        unfolding dedup by blast
      then show ?thesis by (simp add: drop_duplicates_props(1))
    qed
  qed
  from one two show ?thesis by (rule conjI)
qed

lemma chave_reg_de: "chave (reg_de numero g) = (Some numero, py ''TJPE'')"
  by (simp add: reg_de_def chave_def montar_registro_def Let_def src_de_def empty_source_def
      rt0_def py_def upper_cp_def)

lemma tribunais_loop_dup:
  "tribunais_loop (rt0 pagina_unica) (py ''LOCAR'') (py ''35474949000108'') 25 None
       [py ''tjpe''] [] [CreateSession] =
     ([reg_de (py ''0001'') (py ''G1''), reg_de (py ''0002'') (py ''G1''),
       reg_de (py ''0001'') (py ''G2'')],
      [CreateSession, Consultando (py ''TJPE''),
       Post (search_request (py ''LOCAR'') (py ''35474949000108'') (py ''tjpe'') 0),
       Encontrados 3])"
proof -
  have n: "str_strip (rt0 pagina_unica) (str_lower (rt0 pagina_unica) (py ''tjpe'')) = py ''tjpe''"
    "str_upper (rt0 pagina_unica) (py ''tjpe'') = py ''TJPE''"
    by (simp_all add: rt0_def py_def lower_cp_def upper_cp_def strip0_def is_space_def)
  have p: "processar_hit (rt0 pagina_unica) (py ''tjpe'') None \<lparr> hit_source = Some (src_de numero g) \<rparr> =
      Some (reg_de numero g)" for numero g
    by (simp add: processar_hit_def Let_def get_source_def reg_de_def)
  have r: "session_post (rt0 pagina_unica) tr
      (search_request (py ''LOCAR'') (py ''35474949000108'') (py ''tjpe'') 0) =
      pagina_unica tr (search_request (py ''LOCAR'') (py ''35474949000108'') (py ''tjpe'') 0)" for tr
    by (simp add: rt0_def)
  have b: "buscar_processos (rt0 pagina_unica) (py ''LOCAR'') (py ''35474949000108'')
       (py ''tjpe'') 25 None [CreateSession, Consultando (py ''TJPE'')] =
     ([reg_de (py ''0001'') (py ''G1''), reg_de (py ''0002'') (py ''G1''),
       reg_de (py ''0001'') (py ''G2'')],
      [CreateSession, Consultando (py ''TJPE''),
       Post (search_request (py ''LOCAR'') (py ''35474949000108'') (py ''tjpe'') 0)])"
    by (simp add: buscar_processos_def upt_conv_Cons r Let_def)
       (simp add: pagina_unica_def search_request_def get_hits_def page_size_def p)
  show ?thesis by (simp add: n b Let_def)
qed

theorem deduplication_stable_witness:
  "fst (main (rt0 pagina_unica) args_dup) =
     Dados [reg_de (py ''0001'') (py ''G1''), reg_de (py ''0002'') (py ''G1'')]
   \<and> distinct (map chave [reg_de (py ''0001'') (py ''G1''), reg_de (py ''0002'') (py ''G1'')])
   \<and> [reg_de (py ''0001'') (py ''G1''), reg_de (py ''0002'') (py ''G1'')] =
       nths [reg_de (py ''0001'') (py ''G1''), reg_de (py ''0002'') (py ''G1''),
             reg_de (py ''0001'') (py ''G2'')]
         (primeiras [reg_de (py ''0001'') (py ''G1''), reg_de (py ''0002'') (py ''G1''),
             reg_de (py ''0001'') (py ''G2'')])"
proof -
  let ?out = "[reg_de (py ''0001'') (py ''G1''), reg_de (py ''0002'') (py ''G1'')]"
  let ?raw = "[reg_de (py ''0001'') (py ''G1''), reg_de (py ''0002'') (py ''G1''),
             reg_de (py ''0001'') (py ''G2'')]"
  have dd: "drop_duplicates ?raw = ?out"
    by (simp add: drop_duplicates_def chave_reg_de py_def)
  have cfg: "truthy (arg_nome args_dup) = Some (py ''LOCAR'')"
    "truthy (arg_cnpj args_dup) = Some (py ''35474949000108'')"
    "determinar_desde (rt0 pagina_unica) args_dup = Inr None"
    "arg_tribunais args_dup = [py ''tjpe'']" "arg_max_paginas args_dup = 25"
    "\<not> arg_selftest args_dup"
    by (simp_all add: args_dup_def truthy_def determinar_desde_def py_def)
  have m: "fst (main (rt0 pagina_unica) args_dup) = Dados ?out"
    by (simp add: main_def executar_def cfg tribunais_loop_dup dd del: tribunais_loop.simps)
  have ns: "\<not> arg_selftest args_dup" by (simp add: args_dup_def)
  note t = deduplication_stable [of "rt0 pagina_unica" args_dup ?out]
  from t m have a: "distinct (map chave ?out)" by blast
  from t m ns obtain nome cnpj filtro raw where
    c: "truthy (arg_nome args_dup) = Some nome" "truthy (arg_cnpj args_dup) = Some cnpj"
      "determinar_desde (rt0 pagina_unica) args_dup = Inr filtro"
      "raw = fst (tribunais_loop (rt0 pagina_unica) nome cnpj (arg_max_paginas args_dup) filtro
                         (arg_tribunais args_dup) [] [CreateSession])"
    and o: "?out = nths raw (primeiras raw)"
    by blast
  from c(1,2,3) have "nome = py ''LOCAR''" "cnpj = py ''35474949000108''" "filtro = None"
    by (simp_all add: cfg)
  with c(4) have "raw = ?raw"
    by (simp add: cfg tribunais_loop_dup del: tribunais_loop.simps)
  with o have b: "?out = nths ?raw (primeiras ?raw)" by simp
  from m a b show ?thesis by blast
qed

subsection \<open>The date options of the command line\<close>

lemma hits_loop_filter:
  "hits_loop rt trib (Some d) hits resultados =
     resultados @ map (\<lambda>p. montar_registro rt trib (get_source p))
                    (filter (\<lambda>p. \<not> data_anterior rt d p) hits)"
  by (induction hits arbitrary: resultados)
     (auto simp: processar_hit_def data_anterior_def Let_def split: option.splits)

lemma hits_loop_None:
  "hits_loop rt trib None hits resultados =
     resultados @ map (\<lambda>p. montar_registro rt trib (get_source p)) hits"
  by (induction hits arbitrary: resultados) (simp_all add: processar_hit_def Let_def)

lemma executar_arg_desde: "executar rt (a \<lparr> arg_desde := x \<rparr>) d = executar rt a d"
  by (simp add: executar_def split: option.splits list.splits)

lemma determinar_desde_vazio:
  "determinar_desde rt (a \<lparr> arg_desde := Some [] \<rparr>) =
   determinar_desde rt (a \<lparr> arg_desde := None \<rparr>)"
  by (simp add: determinar_desde_def)

lemma main_arg_desde_vazio:
  "main rt (a \<lparr> arg_desde := Some [] \<rparr>) = main rt (a \<lparr> arg_desde := None \<rparr>)"
  by (simp add: main_def determinar_desde_vazio executar_arg_desde cong: sum.case_cong)

lemma main_desde_vazio:
  "main (rt0 no_transport) args_desde_vazio = main (rt0 no_transport) args_ex"
proof -
  have "args_ex \<lparr> arg_desde := None \<rparr> = args_ex" by (simp add: args_ex_def)
  with main_arg_desde_vazio [of "rt0 no_transport" args_ex] show ?thesis
    by (simp add: args_desde_vazio_def)
qed

lemma digits_Some:
  "digits cs acc = Some v \<Longrightarrow>
     list_all is_digit cs \<and> v = foldl (\<lambda>a c. 10 * a + (c - 48)) acc cs"
  by (induction cs arbitrary: acc) (auto simp: digit_def is_digit_def split: if_splits)

lemma parse_digits_Some:
  assumes "parse_digits n s = Some (v, r)"
  shows "n \<le> length s \<and> r = drop n s \<and> list_all is_digit (take n s)
     \<and> v = number_of (take n s)"
proof -
  from assms have l: "n \<le> length s" and r: "r = drop n s"
    and d: "digits (take n s) 0 = Some v"
    by (auto simp: parse_digits_def split: if_splits option.splits)
  from digits_Some [OF d] l r show ?thesis by (simp add: number_of_def)
qed

lemma skip_dash_Some: "skip_dash True s = Some r \<Longrightarrow> s = 45 # r"
  by (auto simp: skip_dash_def split: list.splits if_splits)

lemma utf8_len_ge: "length s \<le> utf8_len s"
  by (induction s) (auto simp: utf8_len_def)

lemma fromisoformat_310_valid:
  assumes "fromisoformat_310 s = Some x"
  shows "valid_ymd s"
proof -
  from assms have u: "utf8_len s = 10"
    by (simp add: fromisoformat_310_def split: if_splits)
  from assms u obtain y p1 p2 m p3 p4 d p5 where
    a: "parse_digits 4 s = Some (y, p1)" and b: "skip_dash True p1 = Some p2"
    and c: "parse_digits 2 p2 = Some (m, p3)" and e: "skip_dash True p3 = Some p4"
    and f: "parse_digits 2 p4 = Some (d, p5)" and g: "new_date y m d = Some x"
    by (auto simp: fromisoformat_310_def split: option.splits)
  note pa = parse_digits_Some [OF a] and pc = parse_digits_Some [OF c]
    and pf = parse_digits_Some [OF f]
  note sb = skip_dash_Some [OF b] and se = skip_dash_Some [OF e]
  have s: "s = take 4 s @ 45 # take 2 p2 @ 45 # take 2 p4 @ p5"
    using pa pc pf sb se by (metis append_take_drop_id)
  have l4: "length (take 4 s) = 4" and l2: "length (take 2 p2) = 2"
    and l2': "length (take 2 p4) = 2"
    using pa pc pf by simp_all
  have "10 + length p5 = length s"
    using arg_cong [OF s, of length] l4 l2 l2' by simp
  moreover from utf8_len_ge [of s] u have "length s \<le> 10" by simp
  ultimately have "length p5 = 0" by linarith
  then have p5: "p5 = []" by simp
  define A where "A = take 4 s"
  define B where "B = take 2 p2"
  define C where "C = take 2 p4"
  have s': "s = A @ 45 # B @ 45 # C" and lA: "length A = 4" and lB: "length B = 2"
    and lC: "length C = 2"
    using s p5 l4 l2 l2' by (simp_all add: A_def B_def C_def)
  have dg: "list_all is_digit A" "list_all is_digit B" "list_all is_digit C"
    and vals: "y = number_of A" "m = number_of B" "d = number_of C"
    using pa pc pf by (simp_all add: A_def B_def C_def)
  have parts: "take 4 s = A" "s ! 4 = 45" "take 2 (drop 5 s) = B" "s ! 7 = 45" "drop 8 s = C"
    "length s = 10"
    using lA lB lC by (simp_all add: s' nth_append)
  from g have rng: "1 \<le> y \<and> 1 \<le> m \<and> m \<le> 12 \<and> 1 \<le> d \<and> d \<le> days_in_month y m"
    by (simp add: new_date_def split: if_splits)
  show ?thesis
    unfolding valid_ymd_def parts Let_def using dg vals rng by simp
qed

lemma rt_310_strict: "\<not> valid_ymd s \<Longrightarrow> date_fromisoformat rt_310 s = None"
  using fromisoformat_310_valid [of s] by (cases "fromisoformat_310 s") (auto simp: rt_310_def)

lemma executar_args_ex:
  "executar (rt0 no_transport) args_ex d =
     (Dados [],
      [CreateSession,
       Consultando (py ''TJPE''),
       Post (search_request (py ''LOCAR'') (py ''35474949000108'') (py ''tjpe'') 0),
       WarnFalha (py ''TJPE'') 1,
       Encontrados 0,
       Consultando (py ''TJBA''),
       Post (search_request (py ''LOCAR'') (py ''35474949000108'') (py ''tjba'') 0),
       WarnFalha (py ''TJBA'') 1,
       Encontrados 0,
       Total 0])"
  by (simp add: executar_def truthy_def args_ex_def
      buscar_processos_def upt_conv_Cons no_transport_def rt0_def py_def lower_cp_def
      upper_cp_def strip0_def is_space_def Let_def)

lemma main_desde_compacto:
  "main (rt0 no_transport) args_desde_compacto =
     executar (rt0 no_transport) args_ex (Some 738900)"
proof -
  have "determinar_desde (rt0 no_transport) args_desde_compacto = Inr (Some 738900)"
    by (simp add: determinar_desde_def args_desde_compacto_def rt0_def py_def iso_simps)
  then show ?thesis
    by (simp add: main_def args_desde_compacto_def executar_arg_desde)
qed

text \<open>
  C8, as stated, fails in two ways. The empty string is not a date, yet \<open>if args.desde\<close>
  takes \<open>--desde ""\<close> for an option that was not given. And on the parser of CPython
  3.11 \<open>--desde 20240115\<close>, which is not of the form \<open>YYYY-MM-DD\<close>, is a date. In both
  runs the session is created and the tribunals are queried.
\<close>

theorem desde_accepted_though_invalid:
  "arg_desde args_desde_vazio = Some []
   \<and> \<not> valid_ymd []
   \<and> main (rt0 no_transport) args_desde_vazio =
     (Dados [],
      [CreateSession,
       Consultando (py ''TJPE''),
       Post (search_request (py ''LOCAR'') (py ''35474949000108'') (py ''tjpe'') 0),
       WarnFalha (py ''TJPE'') 1,
       Encontrados 0,
       Consultando (py ''TJBA''),
       Post (search_request (py ''LOCAR'') (py ''35474949000108'') (py ''tjba'') 0),
       WarnFalha (py ''TJBA'') 1,
       Encontrados 0,
       Total 0])
   \<and> arg_desde args_desde_compacto = Some (py ''20240115'')
   \<and> \<not> valid_ymd (py ''20240115'')
   \<and> main (rt0 no_transport) args_desde_compacto =
     (Dados [],
      [CreateSession,
       Consultando (py ''TJPE''),
       Post (search_request (py ''LOCAR'') (py ''35474949000108'') (py ''tjpe'') 0),
       WarnFalha (py ''TJPE'') 1,
       Encontrados 0,
       Consultando (py ''TJBA''),
       Post (search_request (py ''LOCAR'') (py ''35474949000108'') (py ''tjba'') 0),
       WarnFalha (py ''TJBA'') 1,
       Encontrados 0,
       Total 0])"
  by (simp add: main_desde_vazio main_args_ex main_desde_compacto executar_args_ex)
     (simp add: args_desde_vazio_def args_desde_compacto_def valid_ymd_def py_def)

text \<open>
  C8, amended. When \<open>--desde\<close> is a non-empty string that \<open>date.fromisoformat\<close> rejects,
  the run reports the error and exits with the non-zero status 1, and nothing else
  happens: no session is created and no request is issued. Where \<open>date.fromisoformat\<close>
  accepts nothing but valid \<open>YYYY-MM-DD\<close> dates (CPython up to 3.10), this holds for every
  non-empty string that is not a valid \<open>YYYY-MM-DD\<close> date. An empty \<open>--desde\<close> behaves as
  an absent one.
\<close>

theorem invalid_desde_exits:
  "(arg_desde a = Some s \<and> s \<noteq> [] \<and> date_fromisoformat rt s = None \<longrightarrow>
      main rt a = (SystemExit 1, [ErroData s])
      \<and> requests (snd (main rt a)) = []
      \<and> CreateSession \<notin> set (snd (main rt a)))
   \<and> ((\<forall>x. \<not> valid_ymd x \<longrightarrow> date_fromisoformat rt x = None) \<longrightarrow>
        (arg_desde a = Some s \<and> s \<noteq> [] \<and> \<not> valid_ymd s \<longrightarrow>
           main rt a = (SystemExit 1, [ErroData s])
           \<and> requests (snd (main rt a)) = []
           \<and> CreateSession \<notin> set (snd (main rt a))))
   \<and> main rt (a \<lparr> arg_desde := Some [] \<rparr>) = main rt (a \<lparr> arg_desde := None \<rparr>)"
proof -
  have one: "main rt a = (SystemExit 1, [ErroData s])"
    if "arg_desde a = Some s" "s \<noteq> []" "date_fromisoformat rt s = None"
    using that by (cases s) (simp_all add: main_def determinar_desde_def)
  note two = main_arg_desde_vazio [of rt a]
  have "requests [ErroData s] = []"
    by (simp add: requests_def List.map_filter_simps)
  with one two show ?thesis by simp
qed

theorem invalid_desde_exits_witness:
  "main (rt0 no_transport) args_desde_invalido = (SystemExit 1, [ErroData (py ''15/01/2024'')])
   \<and> requests (snd (main (rt0 no_transport) args_desde_invalido)) = []
   \<and> main rt_310 args_desde_compacto = (SystemExit 1, [ErroData (py ''20240115'')])
   \<and> main rt_310 (args_ex \<lparr> arg_desde := Some [] \<rparr>) =
       main rt_310 (args_ex \<lparr> arg_desde := None \<rparr>)"
proof -
  have "arg_desde args_desde_invalido = Some (py ''15/01/2024'')" "py ''15/01/2024'' \<noteq> []"
    "date_fromisoformat (rt0 no_transport) (py ''15/01/2024'') = None"
    by (simp_all add: args_desde_invalido_def rt0_def py_def iso_simps)
  with invalid_desde_exits [of args_desde_invalido "py ''15/01/2024''" "rt0 no_transport"]
  have a: "main (rt0 no_transport) args_desde_invalido =
      (SystemExit 1, [ErroData (py ''15/01/2024'')])
    \<and> requests (snd (main (rt0 no_transport) args_desde_invalido)) = []"
    by blast
  have "arg_desde args_desde_compacto = Some (py ''20240115'')" "py ''20240115'' \<noteq> []"
    "\<not> valid_ymd (py ''20240115'')"
    by (simp_all add: args_desde_compacto_def valid_ymd_def py_def)
  with invalid_desde_exits [of args_desde_compacto "py ''20240115''" rt_310] rt_310_strict
  have b: "main rt_310 args_desde_compacto = (SystemExit 1, [ErroData (py ''20240115'')])"
    by blast
  from invalid_desde_exits [of args_ex "[]" rt_310]
  have c: "main rt_310 (args_ex \<lparr> arg_desde := Some [] \<rparr>) =
       main rt_310 (args_ex \<lparr> arg_desde := None \<rparr>)"
    by blast
  from a b c show ?thesis by blast
qed

text \<open>
  C10, as stated, fails for large \<open>N\<close>: with \<open>--since-days 1000000\<close> the day
  \<open>today - N\<close> lies before 0001-01-01, the subtraction raises \<open>OverflowError\<close> and the
  run ends there.
\<close>

theorem since_days_overflow:
  "arg_desde (args_since 1000000) = None
   \<and> arg_since_days (args_since 1000000) = Some 1000000
   \<and> main (rt0 no_transport) (args_since 1000000) = (Raised OverflowError, [])"
  by (simp add: args_since_def args_ex_def main_def determinar_desde_def date_minus_days_def
      rt0_def)

lemma determinar_desde_since_days:
  assumes "truthy (arg_desde a) = None"
  shows "determinar_desde rt a =
      (case arg_since_days a of
         None \<Rightarrow> Inr None
       | Some n \<Rightarrow>
           if n = 0 then Inr None
           else (case date_minus_days (date_today rt) n of
                   Inl e \<Rightarrow> Inl (Raised e, [])
                 | Inr d \<Rightarrow> Inr (Some d)))"
  using assms by (auto simp: determinar_desde_def truthy_def split: option.splits list.splits)

text \<open>
  C10, amended. Without \<open>--desde\<close>, \<open>--since-days 0\<close> runs without a date filter, under
  which every hit is kept. For \<open>N \<ge> 1\<close> with \<open>N \<le> 999999999\<close> and \<open>today - N\<close> not before
  0001-01-01, the run uses the filter \<open>today - N\<close>: a hit is dropped exactly when its date
  parses to a day before \<open>today - N\<close>. For a transport without memory the rows of a
  configured run are, deduplicated, those of the hits on the pages each tribunal was asked
  for: all of them with \<open>--since-days 0\<close>, and with \<open>--since-days N\<close> those whose date
  does not parse to a day before \<open>today - N\<close>.
\<close>

theorem since_days_filter:
  "(truthy (arg_desde a) = None \<and> arg_since_days a = Some 0 \<longrightarrow>
      main rt a = executar rt a None)
   \<and> processar_hit rt trib None p = Some (montar_registro rt trib (get_source p))
   \<and> hits_loop rt trib None hits resultados =
       resultados @ map (\<lambda>p. montar_registro rt trib (get_source p)) hits
   \<and> (truthy (arg_desde a) = None \<and> arg_since_days a = Some n \<and> 1 \<le> n \<and> n \<le> 999999999
        \<and> 1 \<le> date_today rt - n \<and> date_today rt \<le> MAXORDINAL \<longrightarrow>
        main rt a = executar rt a (Some (date_today rt - n))
        \<and> (processar_hit rt trib (Some (date_today rt - n)) p = None \<longleftrightarrow>
             (\<exists>dd. parse_date rt (get_dataDistribuicao (get_source p)) = Some dd
                   \<and> dd < date_today rt - n))
        \<and> hits_loop rt trib (Some (date_today rt - n)) hits resultados =
            resultados @ map (\<lambda>p. montar_registro rt trib (get_source p))
                           (filter (\<lambda>p. \<not> data_anterior rt (date_today rt - n) p) hits))
   \<and> (sem_memoria rt f \<and> configurado a \<and> truthy (arg_desde a) = None
        \<and> arg_since_days a = Some 0 \<longrightarrow>
        fst (main rt a) =
          Dados (drop_duplicates (concat (map
            (linhas_tribunal rt f (the (arg_nome a)) (the (arg_cnpj a)) (arg_max_paginas a) None)
            (arg_tribunais a)))))
   \<and> (sem_memoria rt f \<and> configurado a \<and> truthy (arg_desde a) = None
        \<and> arg_since_days a = Some n \<and> 1 \<le> n \<and> n \<le> 999999999
        \<and> 1 \<le> date_today rt - n \<and> date_today rt \<le> MAXORDINAL \<longrightarrow>
        fst (main rt a) =
          Dados (drop_duplicates (concat (map
            (linhas_tribunal rt f (the (arg_nome a)) (the (arg_cnpj a)) (arg_max_paginas a)
               (Some (date_today rt - n)))
            (arg_tribunais a)))))
   \<and> linhas_filtradas rt trib None (Resposta data) =
        map (\<lambda>p. montar_registro rt trib (get_source p)) (get_hits data)
   \<and> linhas_filtradas rt trib (Some d) (Resposta data) =
        map (\<lambda>p. montar_registro rt trib (get_source p))
          (filter (\<lambda>p. \<not> data_anterior rt d p) (get_hits data))"
proof -
  note vazio = determinar_desde_since_days
  have zero: "truthy (arg_desde a) = None \<and> arg_since_days a = Some 0 \<longrightarrow>
      main rt a = executar rt a None"
    by (simp add: main_def vazio)
  have dd: "determinar_desde rt a = Inr (Some (date_today rt - n))"
    if "truthy (arg_desde a) = None" "arg_since_days a = Some n" "1 \<le> n" "n \<le> 999999999"
      "1 \<le> date_today rt - n" "date_today rt \<le> MAXORDINAL"
    using that by (simp add: vazio date_minus_days_def)
  have dias: "main rt a = executar rt a (Some (date_today rt - n))"
    if "truthy (arg_desde a) = None" "arg_since_days a = Some n" "1 \<le> n" "n \<le> 999999999"
      "1 \<le> date_today rt - n" "date_today rt \<le> MAXORDINAL"
    using dd [OF that] by (simp add: main_def)
  have drop: "processar_hit rt trib (Some d) p = None \<longleftrightarrow>
             (\<exists>dd. parse_date rt (get_dataDistribuicao (get_source p)) = Some dd \<and> dd < d)" for d
    by (auto simp: processar_hit_def Let_def split: option.splits)
  have keep: "processar_hit rt trib None p = Some (montar_registro rt trib (get_source p))"
    by (simp add: processar_hit_def Let_def)
  have run0: "fst (main rt a) =
          Dados (drop_duplicates (concat (map
            (linhas_tribunal rt f (the (arg_nome a)) (the (arg_cnpj a)) (arg_max_paginas a) None)
            (arg_tribunais a))))"
    if "sem_memoria rt f" "configurado a" "truthy (arg_desde a) = None" "arg_since_days a = Some 0"
  proof -
    from that(3,4) have "determinar_desde rt a = Inr None" by (simp add: vazio)
    from main_sem_memoria [OF that(1) this that(2)] show ?thesis .
  qed
  have runn: "fst (main rt a) =
          Dados (drop_duplicates (concat (map
            (linhas_tribunal rt f (the (arg_nome a)) (the (arg_cnpj a)) (arg_max_paginas a)
               (Some (date_today rt - n)))
            (arg_tribunais a))))"
    if "sem_memoria rt f" "configurado a" "truthy (arg_desde a) = None" "arg_since_days a = Some n"
      "1 \<le> n" "n \<le> 999999999" "1 \<le> date_today rt - n" "date_today rt \<le> MAXORDINAL"
    using main_sem_memoria [OF that(1) dd [OF that(3-8)] that(2)] .
  have l0: "linhas_filtradas rt trib None (Resposta data) =
        map (\<lambda>p. montar_registro rt trib (get_source p)) (get_hits data)"
    and l1: "linhas_filtradas rt trib (Some d) (Resposta data) =
        map (\<lambda>p. montar_registro rt trib (get_source p))
          (filter (\<lambda>p. \<not> data_anterior rt d p) (get_hits data))"
    by (simp_all add: linhas_filtradas_def)
  from zero keep dias drop hits_loop_None [of rt trib hits resultados]
    hits_loop_filter [of rt trib "date_today rt - n" hits resultados] run0 runn l0 l1
  show ?thesis by blast
qed

lemma linhas_tribunal_duas_datas:
  "linhas_tribunal (rt0 (\<lambda>tr. duas_datas)) duas_datas nome cnpj 25 None t =
     [reg_datado (normalizar (rt0 (\<lambda>tr. duas_datas)) t) (py ''0001'') (py ''2024-01-15T00:00:00Z''),
      reg_datado (normalizar (rt0 (\<lambda>tr. duas_datas)) t) (py ''0002'') (py ''2026-10-20T08:00:00Z'')]"
  "linhas_tribunal (rt0 (\<lambda>tr. duas_datas)) duas_datas nome cnpj 25 (Some 739893) t =
     [reg_datado (normalizar (rt0 (\<lambda>tr. duas_datas)) t) (py ''0002'') (py ''2026-10-20T08:00:00Z'')]"
proof -
  let ?rt = "rt0 (\<lambda>tr. duas_datas)"
  let ?t = "normalizar ?rt t"
  have bf: "body_from (search_request nome cnpj ?t 0) = 0" by (simp add: search_request_def)
  have u: "[0..<nat 25] = 0 # [Suc 0..<25]" "[0..<25] = 0 # [Suc 0..<25]"
    by (simp_all add: upt_conv_Cons)
  have pc: "paginas_consultadas duas_datas nome cnpj ?t 25 = Suc 0"
    by (simp add: paginas_consultadas_def u encerra_def duas_datas_def bf get_hits_def
        page_size_def)
  have pd: "parse_date ?rt (py ''2024-01-15T00:00:00Z'') = Some 738900"
    "parse_date ?rt (py ''2026-10-20T08:00:00Z'') = Some 739909"
    by (simp_all add: parse_date_def rt0_def py_def iso_simps upt_conv_Cons)
  have an: "data_anterior ?rt 739893 \<lparr> hit_source = Some (src_datado numero dist) \<rparr> \<longleftrightarrow>
      (case parse_date ?rt dist of None \<Rightarrow> False | Some dd \<Rightarrow> dd < 739893)" for numero dist
    by (simp add: data_anterior_def get_source_def get_dataDistribuicao_def src_datado_def
        empty_source_def)
  show "linhas_tribunal ?rt duas_datas nome cnpj 25 None t =
     [reg_datado ?t (py ''0001'') (py ''2024-01-15T00:00:00Z''),
      reg_datado ?t (py ''0002'') (py ''2026-10-20T08:00:00Z'')]"
    by (simp add: linhas_tribunal_def pc linhas_filtradas_def duas_datas_def bf get_hits_def
        get_source_def reg_datado_def)
  show "linhas_tribunal ?rt duas_datas nome cnpj 25 (Some 739893) t =
     [reg_datado ?t (py ''0002'') (py ''2026-10-20T08:00:00Z'')]"
    by (simp add: linhas_tribunal_def pc linhas_filtradas_def duas_datas_def bf get_hits_def
        an pd get_source_def reg_datado_def)
qed

lemma chave_reg_datado:
  "chave (reg_datado trib numero dist) = (Some numero, concat (map upper_cp trib))"
  by (simp add: reg_datado_def chave_def montar_registro_def Let_def src_datado_def
      empty_source_def rt0_def)

theorem since_days_filter_witness:
  "main (rt0 no_transport) (args_since 0) = executar (rt0 no_transport) (args_since 0) None
   \<and> main (rt0 no_transport) (args_since 30) =
       executar (rt0 no_transport) (args_since 30) (Some 739893)
   \<and> processar_hit (rt0 no_transport) (py ''tjpe'') (Some 739893) hit_antes = None
   \<and> processar_hit (rt0 no_transport) (py ''tjpe'') None hit_antes =
       Some (montar_registro (rt0 no_transport) (py ''tjpe'') (get_source hit_antes))
   \<and> fst (main (rt0 (\<lambda>tr. duas_datas)) (args_since 0)) =
       Dados [reg_datado (py ''tjpe'') (py ''0001'') (py ''2024-01-15T00:00:00Z''),
              reg_datado (py ''tjpe'') (py ''0002'') (py ''2026-10-20T08:00:00Z''),
              reg_datado (py ''tjba'') (py ''0001'') (py ''2024-01-15T00:00:00Z''),
              reg_datado (py ''tjba'') (py ''0002'') (py ''2026-10-20T08:00:00Z'')]
   \<and> fst (main (rt0 (\<lambda>tr. duas_datas)) (args_since 30)) =
       Dados [reg_datado (py ''tjpe'') (py ''0002'') (py ''2026-10-20T08:00:00Z''),
              reg_datado (py ''tjba'') (py ''0002'') (py ''2026-10-20T08:00:00Z'')]"
proof -
  let ?rt = "rt0 no_transport"
  let ?rd = "rt0 (\<lambda>tr. duas_datas)"
  have c: "truthy (arg_desde (args_since k)) = None" "arg_since_days (args_since k) = Some k" for k
    by (simp_all add: args_since_def args_ex_def truthy_def)
  have today: "date_today ?rt = 739923" "date_today ?rd = 739923" by (simp_all add: rt0_def)
  have p0: "parse_date ?rt (get_dataDistribuicao (get_source hit_antes)) = Some 738899"
    by (simp add: hit_antes_def hit_de_dataDistribuicao parse_date_rt0_examples)
  note z = since_days_filter [where a = "args_since 0" and rt = ?rt and trib = "py ''tjpe''"
      and p = hit_antes and hits = "[]" and resultados = "[]" and n = 0 and f = duas_datas]
  note t = since_days_filter [where a = "args_since 30" and rt = ?rt and trib = "py ''tjpe''"
      and p = hit_antes and hits = "[]" and resultados = "[]" and n = 30 and f = duas_datas]
  from z c have a: "main ?rt (args_since 0) = executar ?rt (args_since 0) None" by blast
  from z have d: "processar_hit ?rt (py ''tjpe'') None hit_antes =
       Some (montar_registro ?rt (py ''tjpe'') (get_source hit_antes))" by blast
  have h: "truthy (arg_desde (args_since 30)) = None \<and> arg_since_days (args_since 30) = Some 30
      \<and> (1::int) \<le> 30 \<and> (30::int) \<le> 999999999 \<and> 1 \<le> date_today ?rt - 30
      \<and> date_today ?rt \<le> MAXORDINAL"
    by (simp add: c today MAXORDINAL_def)
  from t h have b: "main ?rt (args_since 30) = executar ?rt (args_since 30) (Some (date_today ?rt - 30))"
    and e: "processar_hit ?rt (py ''tjpe'') (Some (date_today ?rt - 30)) hit_antes = None \<longleftrightarrow>
             (\<exists>dd. parse_date ?rt (get_dataDistribuicao (get_source hit_antes)) = Some dd
                   \<and> dd < date_today ?rt - 30)"
    by blast+
  from e p0 have f: "processar_hit ?rt (py ''tjpe'') (Some 739893) hit_antes = None"
    by (simp add: today)
  note z2 = since_days_filter [where a = "args_since 0" and rt = ?rd and trib = "py ''tjpe''"
      and p = hit_antes and hits = "[]" and resultados = "[]" and n = 0 and f = duas_datas]
  note t2 = since_days_filter [where a = "args_since 30" and rt = ?rd and trib = "py ''tjpe''"
      and p = hit_antes and hits = "[]" and resultados = "[]" and n = 30 and f = duas_datas]
  have sm: "sem_memoria ?rd duas_datas" by (simp add: sem_memoria_def rt0_def)
  have cfg: "configurado (args_since k)" "the (arg_nome (args_since k)) = py ''LOCAR''"
    "the (arg_cnpj (args_since k)) = py ''35474949000108''" "arg_max_paginas (args_since k) = 25"
    "arg_tribunais (args_since k) = [py ''TJPE '', py ''tjba'']" for k
    by (simp_all add: configurado_def args_since_def args_ex_def truthy_def py_def)
  have n: "normalizar ?rd (py ''TJPE '') = py ''tjpe''" "normalizar ?rd (py ''tjba'') = py ''tjba''"
    by (simp_all add: normalizar_def rt0_def py_def lower_cp_def strip0_def is_space_def)
  have up: "concat (map upper_cp (py ''tjpe'')) \<noteq> concat (map upper_cp (py ''tjba''))"
    "py ''0001'' \<noteq> py ''0002''"
    by (simp_all add: py_def upper_cp_def)
  from z2 sm cfg(1) c have "fst (main ?rd (args_since 0)) =
      Dados (drop_duplicates (concat (map
        (linhas_tribunal ?rd duas_datas (the (arg_nome (args_since 0)))
           (the (arg_cnpj (args_since 0))) (arg_max_paginas (args_since 0)) None)
        (arg_tribunais (args_since 0)))))"
    by blast
  then have g: "fst (main ?rd (args_since 0)) =
       Dados [reg_datado (py ''tjpe'') (py ''0001'') (py ''2024-01-15T00:00:00Z''),
              reg_datado (py ''tjpe'') (py ''0002'') (py ''2026-10-20T08:00:00Z''),
              reg_datado (py ''tjba'') (py ''0001'') (py ''2024-01-15T00:00:00Z''),
              reg_datado (py ''tjba'') (py ''0002'') (py ''2026-10-20T08:00:00Z'')]"
    using up
    by (simp add: cfg linhas_tribunal_duas_datas n drop_duplicates_def chave_reg_datado)
  have h2: "truthy (arg_desde (args_since 30)) = None \<and> arg_since_days (args_since 30) = Some 30
      \<and> (1::int) \<le> 30 \<and> (30::int) \<le> 999999999 \<and> 1 \<le> date_today ?rd - 30
      \<and> date_today ?rd \<le> MAXORDINAL"
    by (simp add: c today MAXORDINAL_def)
  from t2 sm cfg(1) h2 have "fst (main ?rd (args_since 30)) =
      Dados (drop_duplicates (concat (map
        (linhas_tribunal ?rd duas_datas (the (arg_nome (args_since 30)))
           (the (arg_cnpj (args_since 30))) (arg_max_paginas (args_since 30))
           (Some (date_today ?rd - 30)))
        (arg_tribunais (args_since 30)))))"
    by blast
  then have i: "fst (main ?rd (args_since 30)) =
       Dados [reg_datado (py ''tjpe'') (py ''0002'') (py ''2026-10-20T08:00:00Z''),
              reg_datado (py ''tjba'') (py ''0002'') (py ''2026-10-20T08:00:00Z'')]"
    using up
    by (simp add: cfg today linhas_tribunal_duas_datas n drop_duplicates_def chave_reg_datado)
  from a b d f g i show ?thesis by (simp add: today)
qed

end
